theory Spec2Isabelle
  imports Main
begin

section \<open>JavaScript values\<close>

text \<open>
  The browser script \<^verbatim>\<open>frontend/script.js\<close> passes around values that come out of
  \<^verbatim>\<open>JSON.parse\<close> and \<^verbatim>\<open>response.json()\<close>, plus \<^verbatim>\<open>null\<close> and \<^verbatim>\<open>undefined\<close>.
  Numbers are the integer-valued ones; an object is the list of its own properties in
  property order (keys distinct), none of them a function, as in every value that comes
  out of JSON; a string is the list of its code units below 256.
\<close>

datatype jsval =
    JUndefined
  | JNull
  | JBool bool
  | JNum int
  | JStr string
  | JArr "jsval list"
  | JObj "(string \<times> jsval) list"

datatype error = TypeError | SyntaxError | OtherError string

text \<open>Boolean coercion, as \<^verbatim>\<open>if (v)\<close>, \<^verbatim>\<open>!!v\<close> and \<^verbatim>\<open>a || b\<close> apply it.\<close>

fun truthy :: "jsval \<Rightarrow> bool" where
  "truthy JUndefined = False"
| "truthy JNull = False"
| "truthy (JBool b) = b"
| "truthy (JNum n) = (n \<noteq> 0)"
| "truthy (JStr s) = (s \<noteq> [])"
| "truthy (JArr xs) = True"
| "truthy (JObj fs) = True"

text \<open>
  Property read \<^verbatim>\<open>v.k\<close> for the keys the script reads (\<^verbatim>\<open>nombre\<close>, \<^verbatim>\<open>token\<close>,
  \<^verbatim>\<open>usuario\<close>, \<^verbatim>\<open>message\<close>): a TypeError on \<^verbatim>\<open>null\<close> and \<^verbatim>\<open>undefined\<close>, the own
  property of an object, and \<^verbatim>\<open>undefined\<close> on every other value, none of whose
  prototypes has a property of these names.
\<close>

fun get_prop :: "jsval \<Rightarrow> string \<Rightarrow> error + jsval" where
  "get_prop JUndefined k = Inl TypeError"
| "get_prop JNull k = Inl TypeError"
| "get_prop (JObj fs) k = Inr (case map_of fs k of None \<Rightarrow> JUndefined | Some v \<Rightarrow> v)"
| "get_prop v k = Inr JUndefined"

text \<open>
  Decimal digits of a natural number; \<open>digito\<close> is only applied to a number below
  ten.
\<close>

definition digito :: "nat \<Rightarrow> char" where
  "digito n = ''0123456789'' ! n"

fun decimal :: "nat \<Rightarrow> string" where
  "decimal n = (if n < 10 then [digito n] else decimal (n div 10) @ [digito (n mod 10)])"

declare decimal.simps [simp del]

definition decimal_int :: "int \<Rightarrow> string" where
  "decimal_int i = (if i < 0 then CHR ''-'' # decimal (nat (- i)) else decimal (nat i))"

fun unir :: "string \<Rightarrow> string list \<Rightarrow> string" where
  "unir sep [] = []"
| "unir sep [x] = x"
| "unir sep (x # y # ys) = x @ sep @ unir sep (y # ys)"

section \<open>State of the page\<close>

text \<open>
  A cart line. The comment on \<^verbatim>\<open>estado.carrito\<close> in the script shows a line as
  \<^verbatim>\<open>{id, nombre, precio, cantidad}\<close>; the specification calls the same four fields
  \<^verbatim>\<open>itemId\<close>, \<^verbatim>\<open>name\<close>, \<^verbatim>\<open>unitPrice\<close>, \<^verbatim>\<open>quantity\<close>.
\<close>

record Item =
  itemId :: int
  name :: string
  unitPrice :: int

record CartLine = Item +
  quantity :: int

record carrito =
  items :: "CartLine list"
  total :: int

record estado =
  usuario :: jsval
  token :: jsval
  carrito :: carrito

text \<open>
  What \<^verbatim>\<open>mostrarInterfaz\<close> writes into the bar \<^verbatim>\<open>authNav\<close>: the user's name with the
  logout button wired to \<^verbatim>\<open>cerrarSesion\<close>, or the invitation to log in.
\<close>

datatype nav = NavSinRenderizar | NavUsuario string | NavAnonimo

text \<open>
  The four elements \<^verbatim>\<open>mostrarInterfaz\<close> looks up. \<^verbatim>\<open>None\<close>: the page has no such
  element; for a section, \<^verbatim>\<open>Some h\<close>: it has the class \<^verbatim>\<open>hidden\<close> iff \<open>h\<close>.
\<close>

record dom =
  authSection :: "bool option"
  authNav :: "nav option"
  tiendaSection :: "bool option"
  productosMostrar :: "bool option"

record world =
  estado :: estado
  localStorage :: "string \<rightharpoonup> string"
  documento :: dom
  alertas :: "string list"

datatype fetch_outcome = FetchRejects | FetchResponse nat string

text \<open>
  What the script takes from its surroundings: the JSON codec of the platform
  (\<^verbatim>\<open>JSON.stringify\<close> returns \<^verbatim>\<open>undefined\<close>, here \<open>None\<close>, for \<^verbatim>\<open>undefined\<close>;
  \<^verbatim>\<open>JSON.parse\<close> throws a SyntaxError, here \<open>None\<close>), the network (\<^verbatim>\<open>fetch\<close> of a URL with
  a request body), and the two functions \<^verbatim>\<open>cargarCarrito\<close> and
  \<^verbatim>\<open>cargarProductosTienda\<close> that \<^verbatim>\<open>mostrarInterfaz\<close> calls and the script does not define.
  \<open>Number_toString\<close> is the platform's number-to-string conversion, consulted beyond
  the safe integers, where it prints the shortest digits that identify the double and,
  from \<^verbatim>\<open>1e21\<close> on, an exponent. \<open>hay_logoutButton\<close> tells whether, once the bar
  \<^verbatim>\<open>authNav\<close> holds the logged-in markup around a given user name,
  \<^verbatim>\<open>document.getElementById("logoutButton")\<close> finds an element: the name is pasted into
  the markup as it is, and a name such as \<^verbatim>\<open><!--\<close> swallows the button.
\<close>

record entorno =
  JSON_stringify :: "jsval \<Rightarrow> string option"
  JSON_parse :: "string \<Rightarrow> jsval option"
  fetch :: "string \<Rightarrow> string option \<Rightarrow> fetch_outcome"
  cargarCarrito :: "world \<Rightarrow> error option \<times> world"
  cargarProductosTienda :: "world \<Rightarrow> error option \<times> world"
  Number_toString :: "int \<Rightarrow> string"
  hay_logoutButton :: "string \<Rightarrow> bool"

text \<open>
  String conversion, as \<^verbatim>\<open>localStorage.setItem\<close>, \<^verbatim>\<open>alert\<close> and a template literal apply
  it to their argument. A safe integer prints its decimal digits. An object converts
  through \<^verbatim>\<open>toString\<close>: the inherited one gives \<^verbatim>\<open>[object Object]\<close>; an own property of
  that name is not callable, the inherited \<^verbatim>\<open>valueOf\<close> returns the object itself, and the
  conversion throws a TypeError. An array joins the conversions of its elements with
  commas, \<^verbatim>\<open>null\<close> and \<^verbatim>\<open>undefined\<close> elements giving the empty string, and throws when
  an element does.
\<close>

fun ToString :: "entorno \<Rightarrow> jsval \<Rightarrow> error + string"
  and ToString_elementos :: "entorno \<Rightarrow> jsval list \<Rightarrow> error + string list" where
  "ToString E JUndefined = Inr ''undefined''"
| "ToString E JNull = Inr ''null''"
| "ToString E (JBool b) = Inr (if b then ''true'' else ''false'')"
| "ToString E (JNum n) =
     Inr (if \<bar>n\<bar> < 9007199254740992 then decimal_int n else Number_toString E n)"
| "ToString E (JStr s) = Inr s"
| "ToString E (JArr xs) =
     (case ToString_elementos E xs of
        Inl e \<Rightarrow> Inl e
      | Inr ss \<Rightarrow> Inr (unir '','' ss))"
| "ToString E (JObj fs) =
     (if ''toString'' \<in> set (map fst fs) then Inl TypeError else Inr ''[object Object]'')"
| "ToString_elementos E [] = Inr []"
| "ToString_elementos E (x # xs) =
     (case (if x = JNull \<or> x = JUndefined then Inr [] else ToString E x) of
        Inl e \<Rightarrow> Inl e
      | Inr s \<Rightarrow>
          (case ToString_elementos E xs of
             Inl e \<Rightarrow> Inl e
           | Inr ss \<Rightarrow> Inr (s # ss)))"

definition URL_API :: string where
  "URL_API = ''http://localhost:4000/api''"

definition carrito_vacio :: carrito where
  "carrito_vacio = \<lparr>items = [], total = 0\<rparr>"

definition estado_inicial :: estado where
  "estado_inicial = \<lparr>usuario = JNull, token = JNull, carrito = carrito_vacio\<rparr>"

definition alert :: "string \<Rightarrow> world \<Rightarrow> world" where
  "alert s w = w\<lparr>alertas := alertas w @ [s]\<rparr>"

definition localStorage_setItem :: "string \<Rightarrow> string \<Rightarrow> world \<Rightarrow> world" where
  "localStorage_setItem k v w = w\<lparr>localStorage := (localStorage w)(k \<mapsto> v)\<rparr>"

definition localStorage_removeItem :: "string \<Rightarrow> world \<Rightarrow> world" where
  "localStorage_removeItem k w = w\<lparr>localStorage := (localStorage w)(k := None)\<rparr>"

text \<open>\<^verbatim>\<open>localStorage.getItem(k)\<close> in a condition: a stored, non-empty string.\<close>

definition guardado :: "string option \<Rightarrow> bool" where
  "guardado v = (case v of None \<Rightarrow> False | Some s \<Rightarrow> s \<noteq> [])"

section \<open>Session\<close>

text \<open>
  \<^verbatim>\<open>guardarSesion(token, usuario)\<close>: the two assignments, the two writes, then the log
  line. \<^verbatim>\<open>setItem("token", token)\<close> converts the token to a string before it writes, and
  a conversion that throws leaves both keys unwritten; the read of \<^verbatim>\<open>usuario.nombre\<close>
  in the log line throws when \<^verbatim>\<open>usuario\<close> is \<^verbatim>\<open>null\<close> or \<^verbatim>\<open>undefined\<close>, after both
  writes. \<^verbatim>\<open>JSON.stringify(usuario)\<close> is a string or \<^verbatim>\<open>undefined\<close>, which is stored as
  the text \<^verbatim>\<open>undefined\<close>.
\<close>

definition guardarSesion :: "entorno \<Rightarrow> jsval \<Rightarrow> jsval \<Rightarrow> world \<Rightarrow> error option \<times> world" where
  "guardarSesion E tk usr w =
     (let w1 = w\<lparr>estado := (estado w)\<lparr>token := tk\<rparr>\<rparr>;
          w2 = w1\<lparr>estado := (estado w1)\<lparr>usuario := usr\<rparr>\<rparr>
      in case ToString E tk of
           Inl e \<Rightarrow> (Some e, w2)
         | Inr s \<Rightarrow>
             (let w3 = localStorage_setItem ''token'' s w2;
                  w4 = localStorage_setItem ''user''
                         (case JSON_stringify E usr of None \<Rightarrow> ''undefined'' | Some j \<Rightarrow> j) w3
              in case get_prop usr ''nombre'' of
                   Inl e \<Rightarrow> (Some e, w4)
                 | Inr n \<Rightarrow> (None, w4)))"

text \<open>
  \<^verbatim>\<open>mostrarInterfaz()\<close>. On the logged-in path the template literal converts the user
  name to a string, the markup is assigned to \<^verbatim>\<open>authNav.innerHTML\<close>, and
  \<^verbatim>\<open>addEventListener\<close> is called on what \<^verbatim>\<open>getElementById("logoutButton")\<close> returns,
  which throws a TypeError on \<^verbatim>\<open>null\<close>.
\<close>

definition mostrarInterfaz :: "entorno \<Rightarrow> world \<Rightarrow> error option \<times> world" where
  "mostrarInterfaz E w =
     (let logueado = truthy (usuario (estado w));
          d1 = (documento w)\<lparr>authSection :=
                  map_option (\<lambda>h. logueado) (authSection (documento w))\<rparr>;
          d2 = d1\<lparr>productosMostrar := map_option (\<lambda>h. logueado) (productosMostrar d1)\<rparr>;
          d3 = d2\<lparr>tiendaSection := map_option (\<lambda>h. \<not> logueado) (tiendaSection d2)\<rparr>;
          w3 = w\<lparr>documento := d3\<rparr>;
          tienda =
            (if tiendaSection d3 \<noteq> None \<and> logueado then
               (case cargarCarrito E w3 of
                  (Some e, w4) \<Rightarrow> (Some e, w4)
                | (None, w4) \<Rightarrow> cargarProductosTienda E w4)
             else (None, w3))
      in case tienda of
           (Some e, w5) \<Rightarrow> (Some e, w5)
         | (None, w5) \<Rightarrow>
             (if authNav (documento w5) \<noteq> None then
                (if logueado then
                   (case get_prop (usuario (estado w5)) ''nombre'' of
                      Inl e \<Rightarrow> (Some e, w5)
                    | Inr n \<Rightarrow>
                        (case ToString E n of
                           Inl e \<Rightarrow> (Some e, w5)
                         | Inr s \<Rightarrow>
                             (let w6 = w5\<lparr>documento :=
                                         (documento w5)\<lparr>authNav := Some (NavUsuario s)\<rparr>\<rparr>
                              in if hay_logoutButton E s then (None, w6)
                                 else (Some TypeError, w6))))
                 else (None, w5\<lparr>documento := (documento w5)\<lparr>authNav := Some NavAnonimo\<rparr>\<rparr>))
              else (None, w5)))"

definition cerrarSesion :: "entorno \<Rightarrow> world \<Rightarrow> error option \<times> world" where
  "cerrarSesion E w =
     (let w1 = w\<lparr>estado := (estado w)\<lparr>token := JNull\<rparr>\<rparr>;
          w2 = w1\<lparr>estado := (estado w1)\<lparr>usuario := JNull\<rparr>\<rparr>;
          w3 = w2\<lparr>estado := (estado w2)\<lparr>carrito := \<lparr>items = [], total = 0\<rparr>\<rparr>\<rparr>;
          w4 = localStorage_removeItem ''token'' w3;
          w5 = localStorage_removeItem ''user'' w4;
          w6 = localStorage_removeItem ''carrito'' w5
      in mostrarInterfaz E w6)"

text \<open>
  \<^verbatim>\<open>cargarSesionGuardada()\<close>: the \<^verbatim>\<open>try\<close> block assigns the token first, so a failing
  \<^verbatim>\<open>JSON.parse\<close>, or a failing read of \<^verbatim>\<open>estado.usuario.nombre\<close> in the log line,
  reaches the \<^verbatim>\<open>catch\<close> with the token already set; the \<^verbatim>\<open>catch\<close> calls
  \<^verbatim>\<open>cerrarSesion\<close>.
\<close>

definition cargarSesionGuardada :: "entorno \<Rightarrow> world \<Rightarrow> error option \<times> world" where
  "cargarSesionGuardada E w =
     (let tokenGuardado = localStorage w ''token'';
          usuarioGuardado = localStorage w ''user''
      in if guardado tokenGuardado \<and> guardado usuarioGuardado then
           (case (tokenGuardado, usuarioGuardado) of
              (Some t, Some u) \<Rightarrow>
                (let w1 = w\<lparr>estado := (estado w)\<lparr>token := JStr t\<rparr>\<rparr>
                 in case JSON_parse E u of
                      None \<Rightarrow> cerrarSesion E w1
                    | Some v \<Rightarrow>
                        (let w2 = w1\<lparr>estado := (estado w1)\<lparr>usuario := v\<rparr>\<rparr>
                         in case get_prop v ''nombre'' of
                              Inl e \<Rightarrow> cerrarSesion E w2
                            | Inr n \<Rightarrow> (None, w2)))
            | _ \<Rightarrow> (None, w))
         else (None, w))"

section \<open>Login and registration\<close>

text \<open>\<^verbatim>\<open>respuesta.ok\<close>: the status is in the range 200 to 299.\<close>

definition respuesta_ok :: "nat \<Rightarrow> bool" where
  "respuesta_ok st = (200 \<le> st \<and> st \<le> 299)"

definition msg_sin_conexion :: string where
  "msg_sin_conexion = ''No se pudo conectar con el servidor''"

text \<open>\<^verbatim>\<open>"Error al iniciar sesi\<close>o\<^verbatim>\<open>n"\<close>, the accented o being the code unit 0xF3.\<close>

definition msg_error_login :: string where
  "msg_error_login = ''Error al iniciar sesi'' @ [CHR 0xF3] @ ''n''"

definition msg_error_registro :: string where
  "msg_error_registro = ''Error al registrarse''"

text \<open>
  The branch \<^verbatim>\<open>if (respuesta.ok)\<close>, which the two functions share but for the greeting:
  \<^verbatim>\<open>guardarSesion(datos.token, datos.usuario); mostrarInterfaz(); alert(...)\<close>. Every
  property read can throw, and so can the two calls; the state reached at the throw is
  the one the \<^verbatim>\<open>catch\<close> block sees.
\<close>

definition rama_ok :: "entorno \<Rightarrow> string \<Rightarrow> jsval \<Rightarrow> world \<Rightarrow> error option \<times> world" where
  "rama_ok E saludo datos w =
     (case get_prop datos ''token'' of
        Inl e \<Rightarrow> (Some e, w)
      | Inr tk \<Rightarrow>
          (case get_prop datos ''usuario'' of
             Inl e \<Rightarrow> (Some e, w)
           | Inr usr \<Rightarrow>
               (case guardarSesion E tk usr w of
                  (Some e, w1) \<Rightarrow> (Some e, w1)
                | (None, w1) \<Rightarrow>
                    (case mostrarInterfaz E w1 of
                       (Some e, w2) \<Rightarrow> (Some e, w2)
                     | (None, w2) \<Rightarrow>
                         (case get_prop usr ''nombre'' of
                            Inl e \<Rightarrow> (Some e, w2)
                          | Inr n \<Rightarrow>
                              (case ToString E n of
                                 Inl e \<Rightarrow> (Some e, w2)
                               | Inr s \<Rightarrow> (None, alert (saludo @ s) w2)))))))"

text \<open>
  The branch \<^verbatim>\<open>else\<close>: \<^verbatim>\<open>alert(datos.message || fallback)\<close>. The read of
  \<^verbatim>\<open>datos.message\<close> throws when the body is the JSON \<^verbatim>\<open>null\<close>, and \<^verbatim>\<open>alert\<close>
  throws, showing nothing, when a truthy message cannot be converted to a string.
\<close>

definition rama_error :: "entorno \<Rightarrow> string \<Rightarrow> jsval \<Rightarrow> world \<Rightarrow> error option \<times> world" where
  "rama_error E fallback datos w =
     (case get_prop datos ''message'' of
        Inl e \<Rightarrow> (Some e, w)
      | Inr m \<Rightarrow>
          (if truthy m then
             (case ToString E m of
                Inl e \<Rightarrow> (Some e, w)
              | Inr s \<Rightarrow> (None, alert s w))
           else (None, alert fallback w)))"

text \<open>
  \<^verbatim>\<open>iniciarSesion(email, password)\<close>. The whole body is inside \<^verbatim>\<open>try\<close>: a rejected
  \<^verbatim>\<open>fetch\<close>, a body that \<^verbatim>\<open>respuesta.json()\<close> cannot parse and any exception of the
  two branches end in the \<^verbatim>\<open>catch\<close> block, which alerts the connection message on the
  state reached so far.
\<close>

definition iniciarSesion :: "entorno \<Rightarrow> string \<Rightarrow> string \<Rightarrow> world \<Rightarrow> world" where
  "iniciarSesion E email password w =
     (case fetch E (URL_API @ ''/auth/login'')
             (JSON_stringify E (JObj [(''email'', JStr email), (''password'', JStr password)])) of
        FetchRejects \<Rightarrow> alert msg_sin_conexion w
      | FetchResponse st txt \<Rightarrow>
          (case JSON_parse E txt of
             None \<Rightarrow> alert msg_sin_conexion w
           | Some datos \<Rightarrow>
               (case (if respuesta_ok st then rama_ok E ''Bienvenido, '' datos w
                      else rama_error E msg_error_login datos w) of
                  (Some e, w1) \<Rightarrow> alert msg_sin_conexion w1
                | (None, w1) \<Rightarrow> w1)))"

definition registrarUsuario :: "entorno \<Rightarrow> string \<Rightarrow> string \<Rightarrow> string \<Rightarrow> world \<Rightarrow> world" where
  "registrarUsuario E nombre email password w =
     (case fetch E (URL_API @ ''/auth/register'')
             (JSON_stringify E
                (JObj [(''nombre'', JStr nombre), (''email'', JStr email),
                       (''password'', JStr password)])) of
        FetchRejects \<Rightarrow> alert msg_sin_conexion w
      | FetchResponse st txt \<Rightarrow>
          (case JSON_parse E txt of
             None \<Rightarrow> alert msg_sin_conexion w
           | Some datos \<Rightarrow>
               (case (if respuesta_ok st then rama_ok E ''Cuenta creada. Bienvenido, '' datos w
                      else rama_error E msg_error_registro datos w) of
                  (Some e, w1) \<Rightarrow> alert msg_sin_conexion w1
                | (None, w1) \<Rightarrow> w1)))"

section \<open>Cart\<close>

text \<open>
  Modelled from the spec: the cart operations \<^verbatim>\<open>addItem\<close> and \<^verbatim>\<open>removeItem\<close> are not in
  the source, which only declares \<^verbatim>\<open>estado.carrito\<close> and resets it in
  \<^verbatim>\<open>cerrarSesion\<close>. They follow section 4.3 of the specification: \<^verbatim>\<open>addItem\<close>
  increments the quantity of the entry with the same \<^verbatim>\<open>itemId\<close> if there is one and
  appends a new line otherwise; \<^verbatim>\<open>removeItem\<close> deletes the matching line if present;
  both recompute the total from scratch as the sum of \<^verbatim>\<open>unitPrice\<close> times
  \<^verbatim>\<open>quantity\<close>. Writing the snapshot to the store does not change the cart and is left
  out.
\<close>

definition cart_sum :: "CartLine list \<Rightarrow> int" where
  "cart_sum ls = sum_list (map (\<lambda>l. unitPrice l * quantity l) ls)"

fun merge_line :: "Item \<Rightarrow> int \<Rightarrow> CartLine list \<Rightarrow> CartLine list" where
  "merge_line it q [] =
     [\<lparr>itemId = itemId it, name = name it, unitPrice = unitPrice it, quantity = q\<rparr>]"
| "merge_line it q (l # ls) =
     (if itemId l = itemId it then l\<lparr>quantity := quantity l + q\<rparr> # ls
      else l # merge_line it q ls)"

definition addItem :: "Item \<Rightarrow> int \<Rightarrow> carrito \<Rightarrow> carrito" where
  "addItem it q c =
     (let ls = merge_line it q (items c) in \<lparr>items = ls, total = cart_sum ls\<rparr>)"

definition removeItem :: "int \<Rightarrow> carrito \<Rightarrow> carrito" where
  "removeItem i c =
     (let ls = filter (\<lambda>l. itemId l \<noteq> i) (items c) in \<lparr>items = ls, total = cart_sum ls\<rparr>)"

datatype cart_op = AddItem Item int | RemoveItem int

fun cart_step :: "carrito \<Rightarrow> cart_op \<Rightarrow> carrito" where
  "cart_step c (AddItem it q) = addItem it q c"
| "cart_step c (RemoveItem i) = removeItem i c"

definition cart_run :: "cart_op list \<Rightarrow> carrito \<Rightarrow> carrito" where
  "cart_run ops c = foldl cart_step c ops"

section \<open>Catalogue (backend)\<close>

datatype sqlval = SqlNull | SqlInt int | SqlText string

text \<open>
  A failed query: an unknown column in a clause of the statement (MySQL error 1054), or
  any other failure of the pool with its message.
\<close>

datatype sql_error = ER_BAD_FIELD_ERROR string string | ErrorSql string

fun mensaje :: "sql_error \<Rightarrow> string" where
  "mensaje (ER_BAD_FIELD_ERROR c cl) =
     ''Unknown column '' @ [CHR 0x27] @ c @ [CHR 0x27] @ '' in '' @ [CHR 0x27] @ cl @ [CHR 0x27]"
| "mensaje (ErrorSql m) = m"

text \<open>
  A row of \<^verbatim>\<open>imagenes\<close> with the ten columns that \<^verbatim>\<open>crearTablaImagenes\<close> in
  \<^verbatim>\<open>initdb.js\<close> declares, which are the ten columns that \<^verbatim>\<open>obtenerImagenes\<close> selects.
  \<^verbatim>\<open>precio DECIMAL(10,2)\<close> is counted in hundredths; \<^verbatim>\<open>activo BOOLEAN\<close> is a
  \<^verbatim>\<open>TINYINT(1)\<close> that may be \<^verbatim>\<open>NULL\<close>; \<^verbatim>\<open>creado_en\<close> is in seconds.
\<close>

record imagen =
  id' :: int
  titulo :: string
  descripcion :: "string option"
  precio :: int
  stock :: "int option"
  categoria :: "string option"
  categoria_id :: "int option"
  ruta_imagen :: string
  activo :: "int option"
  creado_en :: nat

text \<open>
  The table is created with \<^verbatim>\<open>CREATE TABLE IF NOT EXISTS\<close>, so the table the query meets
  may have columns besides the ten: a stored row carries their values, and the table
  lists their names.
\<close>

record fila_imagen = imagen +
  otras :: "(string \<times> sqlval) list"

record tabla_imagenes =
  columnas_extra :: "string list"
  filas :: "fila_imagen list"

definition columna_extra :: "string \<Rightarrow> fila_imagen \<Rightarrow> sqlval" where
  "columna_extra c r = (case map_of (otras r) c of None \<Rightarrow> SqlNull | Some v \<Rightarrow> v)"

fun insertar_por :: "('a \<Rightarrow> 'a \<Rightarrow> bool) \<Rightarrow> 'a \<Rightarrow> 'a list \<Rightarrow> 'a list" where
  "insertar_por le x [] = [x]"
| "insertar_por le x (y # ys) = (if le x y then x # y # ys else y # insertar_por le x ys)"

definition ordenar_por :: "('a \<Rightarrow> 'a \<Rightarrow> bool) \<Rightarrow> 'a list \<Rightarrow> 'a list" where
  "ordenar_por le xs = foldr (insertar_por le) xs []"

text \<open>
  \<^verbatim>\<open>obtenerImagenes()\<close>: the query
  \<^verbatim>\<open>SELECT id, titulo, ..., creado_en FROM fotos.imagenes WHERE activo = 1 ORDER BY nombre ASC\<close>.
  \<open>db\<close> is what the pool reaches: an error, or the table. \<^verbatim>\<open>nombre\<close> is not one of the
  ten columns, so the statement is rejected unless the table has a further column of that
  name; \<open>le\<close> is the order of the column's collation. \<^verbatim>\<open>NULL = 1\<close> is not true.
\<close>

definition obtenerImagenes ::
  "(sqlval \<Rightarrow> sqlval \<Rightarrow> bool) \<Rightarrow> sql_error + tabla_imagenes \<Rightarrow> sql_error + imagen list" where
  "obtenerImagenes le db =
     (case db of
        Inl e \<Rightarrow> Inl e
      | Inr t \<Rightarrow>
          if ''nombre'' \<notin> set (columnas_extra t)
          then Inl (ER_BAD_FIELD_ERROR ''nombre'' ''order clause'')
          else Inr (map imagen.truncate
                 (ordenar_por
                    (\<lambda>a b. le (columna_extra ''nombre'' a) (columna_extra ''nombre'' b))
                    (filter (\<lambda>r. activo r = Some 1) (filas t)))))"

record cuerpo =
  success :: bool
  message :: string
  data :: "imagen list option"
  error :: "string option"

record respuesta_http =
  status :: nat
  body :: cuerpo

text \<open>\<^verbatim>\<open>getImagenes(req, res)\<close>, the controller: the request is not read.\<close>

definition getImagenes ::
  "(sqlval \<Rightarrow> sqlval \<Rightarrow> bool) \<Rightarrow> sql_error + tabla_imagenes \<Rightarrow> respuesta_http" where
  "getImagenes le db =
     (case obtenerImagenes le db of
        Inr imagenes \<Rightarrow>
          \<lparr>status = 200,
           body = \<lparr>success = True,
                   message = ''Se encontraron '' @ decimal (length imagenes) @ '' imagenes'',
                   data = Some imagenes, error = None\<rparr>\<rparr>
      | Inl e \<Rightarrow>
          \<lparr>status = 500,
           body = \<lparr>success = False, message = ''Error interno del servidor'',
                   data = None, error = Some (mensaje e)\<rparr>\<rparr>)"

section \<open>Customers (backend)\<close>

datatype fallo = ErrorJS error | ErrorBD sql_error

text \<open>
  \<^verbatim>\<open>crearCliente({ nombre, email, password })\<close>. \<open>pool_query\<close> is the pool: given the
  statement and the values of its placeholders it fails or yields the \<^verbatim>\<open>insertId\<close> of
  the new row. Destructuring the argument throws on \<^verbatim>\<open>null\<close> and \<^verbatim>\<open>undefined\<close>.
\<close>

definition crearCliente ::
  "(string \<Rightarrow> jsval list \<Rightarrow> sql_error + nat) \<Rightarrow> jsval \<Rightarrow> fallo + jsval" where
  "crearCliente pool_query arg =
     (case get_prop arg ''nombre'' of
        Inl e \<Rightarrow> Inl (ErrorJS e)
      | Inr nombre \<Rightarrow>
          (case get_prop arg ''email'' of
             Inl e \<Rightarrow> Inl (ErrorJS e)
           | Inr email \<Rightarrow>
               (case get_prop arg ''password'' of
                  Inl e \<Rightarrow> Inl (ErrorJS e)
                | Inr password \<Rightarrow>
                    (case pool_query
                            ''INSERT INTO clientes (nombre, email, password) VALUES (?, ?, ?)''
                            [nombre, email, password] of
                       Inl e \<Rightarrow> Inl (ErrorBD e)
                     | Inr insertId \<Rightarrow>
                         Inr (JObj [(''insertId'', JNum (int insertId)),
                                    (''id'', JNum (int insertId)),
                                    (''nombre'', nombre),
                                    (''email'', email)])))))"

text \<open>The names of the own properties of a value.\<close>

fun campos :: "jsval \<Rightarrow> string list" where
  "campos (JObj fs) = map fst fs"
| "campos v = []"

section \<open>Notions used by the properties\<close>

text \<open>
  The script tests a session field by truthiness (\<^verbatim>\<open>tokenGuardado && usuarioGuardado\<close>,
  \<^verbatim>\<open>!!estado.usuario\<close>): a field is present when it is truthy, and the session is
  coherent when the token and the user are both present or both absent.
\<close>

definition sesion_coherente :: "estado \<Rightarrow> bool" where
  "sesion_coherente e = (truthy (token e) = truthy (usuario e))"

text \<open>
  Both stored strings are non-empty and the stored user text parses to a value that is
  falsy without being \<^verbatim>\<open>null\<close> or \<^verbatim>\<open>undefined\<close>: \<^verbatim>\<open>0\<close>, \<^verbatim>\<open>false\<close> or \<^verbatim>\<open>""\<close>.
\<close>

definition usuario_falso :: "entorno \<Rightarrow> world \<Rightarrow> bool" where
  "usuario_falso E w =
     (case (localStorage w ''token'', localStorage w ''user'') of
        (Some t, Some u) \<Rightarrow>
          t \<noteq> [] \<and> u \<noteq> [] \<and>
          (case JSON_parse E u of
             None \<Rightarrow> False
           | Some v \<Rightarrow> \<not> truthy v \<and> v \<noteq> JNull \<and> v \<noteq> JUndefined)
      | _ \<Rightarrow> False)"

text \<open>
  A page reload: the script starts again from its initial \<^verbatim>\<open>estado\<close>, and
  \<^verbatim>\<open>localStorage\<close> is what the previous run left.
\<close>

definition recarga :: "world \<Rightarrow> world" where
  "recarga w = w\<lparr>estado := estado_inicial\<rparr>"

text \<open>
  The platform's codec round-trips a value: \<^verbatim>\<open>JSON.stringify\<close> gives a non-empty text
  that \<^verbatim>\<open>JSON.parse\<close> reads back as the same value.
\<close>

definition json_ida_y_vuelta :: "entorno \<Rightarrow> jsval \<Rightarrow> bool" where
  "json_ida_y_vuelta E v =
     (case JSON_stringify E v of
        None \<Rightarrow> False
      | Some s \<Rightarrow> s \<noteq> [] \<and> JSON_parse E s = Some v)"

text \<open>The three keys of \<^verbatim>\<open>localStorage\<close> that the session functions name.\<close>

definition claves_sesion :: "string set" where
  "claves_sesion = {''token'', ''user'', ''carrito''}"

section \<open>Example page and platform\<close>

text \<open>
  A concrete page for the examples: the user of the specification's scenario, the
  platform codec on the handful of values and texts the examples use, a network that
  answers every request with a given outcome, and a page with all four elements. Of the
  numbers beyond the safe integers the examples convert only \<^verbatim>\<open>1e21\<close>, and the user
  names they render hold no markup.
\<close>

definition usuario_ana :: jsval where
  "usuario_ana = JObj [(''id'', JNum 1), (''nombre'', JStr ''Ana''), (''email'', JStr ''a@x.com'')]"

definition tabla_json :: "(jsval \<times> string) list" where
  \<open>tabla_json =
     [(usuario_ana, ''{"id":1,"nombre":"Ana","email":"a@x.com"}''),
      (JObj [(''message'', JStr ''bad credentials'')], ''{"message":"bad credentials"}''),
      (JObj [(''message'', JStr [])], ''{"message":""}''),
      (JObj [(''message'', JObj [(''toString'', JNum 1)])], ''{"message":{"toString":1}}''),
      (JNum 0, ''0''),
      (JBool False, ''false''),
      (JObj [(''email'', JStr ''a@x.com''), (''password'', JStr ''secreto'')],
         ''{"email":"a@x.com","password":"secreto"}''),
      (JObj [(''nombre'', JStr ''Ana''), (''email'', JStr ''a@x.com''), (''password'', JStr ''secreto'')],
         ''{"nombre":"Ana","email":"a@x.com","password":"secreto"}'')]\<close>

definition entorno_ejemplo :: "fetch_outcome \<Rightarrow> entorno" where
  "entorno_ejemplo r =
     \<lparr>JSON_stringify = map_of tabla_json,
      JSON_parse = map_of (map (\<lambda>(v, s). (s, v)) tabla_json),
      fetch = (\<lambda>url body. r),
      cargarCarrito = (\<lambda>w. (None, w)),
      cargarProductosTienda = (\<lambda>w. (None, w)),
      Number_toString = (\<lambda>n. if n = 1000000000000000000000 then ''1e+21'' else decimal_int n),
      hay_logoutButton = (\<lambda>s. CHR ''<'' \<notin> set s)\<rparr>"

definition pagina_inicial :: dom where
  "pagina_inicial =
     \<lparr>authSection = Some False, authNav = Some NavSinRenderizar,
      tiendaSection = Some True, productosMostrar = Some False\<rparr>"

definition mundo_inicial :: "(string \<rightharpoonup> string) \<Rightarrow> world" where
  "mundo_inicial st =
     \<lparr>estado = estado_inicial, localStorage = st, documento = pagina_inicial, alertas = []\<rparr>"

text \<open>
  Stores for the examples: a user entry cut short, the same with an empty token, one
  that holds both a key \<^verbatim>\<open>cart\<close> and a key \<^verbatim>\<open>carrito\<close>, a saved session, and two
  whose user entry is the JSON text of a falsy value. Then a token that cannot be
  converted to a string.
\<close>

definition almacen_corrupto :: "string \<rightharpoonup> string" where
  \<open>almacen_corrupto = [''token'' \<mapsto> ''abc'', ''user'' \<mapsto> ''{"id":1,'', ''carrito'' \<mapsto> ''[]'']\<close>

definition almacen_token_vacio :: "string \<rightharpoonup> string" where
  \<open>almacen_token_vacio = [''token'' \<mapsto> [], ''user'' \<mapsto> ''{"id":1,'', ''carrito'' \<mapsto> ''[]'']\<close>

definition almacen_dos_carritos :: "string \<rightharpoonup> string" where
  \<open>almacen_dos_carritos = [''token'' \<mapsto> ''abc'', ''cart'' \<mapsto> ''[1]'', ''carrito'' \<mapsto> ''[2]'']\<close>

definition almacen_ana :: "string \<rightharpoonup> string" where
  \<open>almacen_ana = [''token'' \<mapsto> ''abc'', ''user'' \<mapsto> ''{"id":1,"nombre":"Ana","email":"a@x.com"}'']\<close>

definition almacen_usuario_cero :: "string \<rightharpoonup> string" where
  "almacen_usuario_cero = [''token'' \<mapsto> ''abc'', ''user'' \<mapsto> ''0'']"

definition almacen_usuario_false :: "string \<rightharpoonup> string" where
  "almacen_usuario_false = [''token'' \<mapsto> ''abc'', ''user'' \<mapsto> ''false'']"

definition token_sin_texto :: jsval where
  "token_sin_texto = JObj [(''toString'', JNum 1)]"

text \<open>The item of the specification's scenario A.\<close>

definition item_X :: Item where
  "item_X = \<lparr>itemId = 1, name = ''X'', unitPrice = 10\<rparr>"

text \<open>
  For the examples: a binary collation (\<^verbatim>\<open>NULL\<close> first, numbers before texts, texts by
  code unit), a table that has a column \<^verbatim>\<open>nombre\<close> and holds an active, an inactive and
  a second active row, and a pool that accepts every insert with the id 7.
\<close>

fun texto_le :: "string \<Rightarrow> string \<Rightarrow> bool" where
  "texto_le [] ys = True"
| "texto_le (x # xs) [] = False"
| "texto_le (x # xs) (y # ys) =
     (if x = y then texto_le xs ys else (of_char x :: nat) < of_char y)"

fun orden_binario :: "sqlval \<Rightarrow> sqlval \<Rightarrow> bool" where
  "orden_binario SqlNull b = True"
| "orden_binario (SqlInt x) SqlNull = False"
| "orden_binario (SqlInt x) (SqlInt y) = (x \<le> y)"
| "orden_binario (SqlInt x) (SqlText t) = True"
| "orden_binario (SqlText s) (SqlText t) = texto_le s t"
| "orden_binario (SqlText s) b = False"

definition fila_ejemplo :: "int \<Rightarrow> string \<Rightarrow> int option \<Rightarrow> fila_imagen" where
  "fila_ejemplo i t a =
     \<lparr>id' = i, titulo = t, descripcion = None, precio = 7999, stock = Some 20,
      categoria = Some ''Naturaleza'', categoria_id = None, ruta_imagen = ''/img.jpg'',
      activo = a, creado_en = 0, otras = [(''nombre'', SqlText t)]\<rparr>"

definition tabla_ejemplo :: tabla_imagenes where
  "tabla_ejemplo =
     \<lparr>columnas_extra = [''nombre''],
      filas = [fila_ejemplo 1 ''playa'' (Some 1), fila_ejemplo 2 ''bosque'' (Some 0),
               fila_ejemplo 3 ''caballos'' (Some 1)]\<rparr>"

definition pool_ejemplo :: "string \<Rightarrow> jsval list \<Rightarrow> sql_error + nat" where
  "pool_ejemplo q ps = Inr 7"

section \<open>Session: auxiliary facts\<close>

lemma mostrarInterfaz_anonimo:
  assumes "\<not> truthy (usuario (estado w))"
  shows "fst (mostrarInterfaz E w) = None"
    and "estado (snd (mostrarInterfaz E w)) = estado w"
    and "localStorage (snd (mostrarInterfaz E w)) = localStorage w"
    and "alertas (snd (mostrarInterfaz E w)) = alertas w"
  using assms by (simp_all add: mostrarInterfaz_def Let_def)

lemma cerrarSesion_efecto:
  shows "fst (cerrarSesion E w) = None"
    and "estado (snd (cerrarSesion E w)) =
           \<lparr>usuario = JNull, token = JNull, carrito = \<lparr>items = [], total = 0\<rparr>\<rparr>"
    and "localStorage (snd (cerrarSesion E w)) =
           (localStorage w)(''token'' := None, ''user'' := None, ''carrito'' := None)"
    and "alertas (snd (cerrarSesion E w)) = alertas w"
  by (simp_all add: cerrarSesion_def Let_def localStorage_removeItem_def mostrarInterfaz_anonimo)

lemma guardarSesion_estado:
  shows "estado (snd (guardarSesion E tk usr w)) = (estado w)\<lparr>token := tk, usuario := usr\<rparr>"
    and "alertas (snd (guardarSesion E tk usr w)) = alertas w"
    and "documento (snd (guardarSesion E tk usr w)) = documento w"
  by (simp_all add: guardarSesion_def Let_def localStorage_setItem_def
      split: sum.splits)

lemma guardarSesion_convertible:
  assumes "ToString E tk = Inr s"
  shows "localStorage (snd (guardarSesion E tk usr w)) =
           (localStorage w)(''token'' \<mapsto> s,
              ''user'' \<mapsto> (case JSON_stringify E usr of None \<Rightarrow> ''undefined'' | Some j \<Rightarrow> j))"
    and "fst (guardarSesion E tk usr w) =
           (if usr = JNull \<or> usr = JUndefined then Some TypeError else None)"
  using assms
  by (cases usr; simp add: guardarSesion_def Let_def localStorage_setItem_def)+

lemma guardarSesion_otras_claves:
  "k \<notin> {''token'', ''user''} \<Longrightarrow>
   localStorage (snd (guardarSesion E tk usr w)) k = localStorage w k"
  by (cases "ToString E tk"; cases usr)
     (simp_all add: guardarSesion_def Let_def localStorage_setItem_def)

lemma guardarSesion_no_convertible:
  assumes "ToString E tk = Inl e"
  shows "fst (guardarSesion E tk usr w) = Some e"
    and "localStorage (snd (guardarSesion E tk usr w)) = localStorage w"
  using assms by (simp_all add: guardarSesion_def Let_def)

lemma cargar_sin_claves:
  "\<not> (guardado (localStorage w ''token'') \<and> guardado (localStorage w ''user''))
   \<Longrightarrow> cargarSesionGuardada E w = (None, w)"
  by (auto simp add: cargarSesionGuardada_def Let_def)

lemma cargar_estado:
  "estado (snd (cargarSesionGuardada E w)) =
     (case (localStorage w ''token'', localStorage w ''user'') of
        (Some t, Some u) \<Rightarrow>
          if t \<noteq> [] \<and> u \<noteq> [] then
            (case JSON_parse E u of
               None \<Rightarrow> \<lparr>usuario = JNull, token = JNull, carrito = \<lparr>items = [], total = 0\<rparr>\<rparr>
             | Some v \<Rightarrow>
                 if v \<noteq> JNull \<and> v \<noteq> JUndefined
                 then (estado w)\<lparr>token := JStr t, usuario := v\<rparr>
                 else \<lparr>usuario = JNull, token = JNull, carrito = \<lparr>items = [], total = 0\<rparr>\<rparr>)
          else estado w
      | _ \<Rightarrow> estado w)"
proof (cases "localStorage w ''token''")
  case None
  then show ?thesis by (simp add: cargarSesionGuardada_def guardado_def)
next
  case (Some t)
  note t = this
  show ?thesis
  proof (cases "localStorage w ''user''")
    case None
    with t show ?thesis by (simp add: cargarSesionGuardada_def guardado_def)
  next
    case (Some u)
    note u = this
    show ?thesis
    proof (cases "JSON_parse E u")
      case None
      with t u show ?thesis
        by (simp add: cargarSesionGuardada_def guardado_def cerrarSesion_efecto)
    next
      case (Some v)
      with t u show ?thesis
        by (cases v) (simp_all add: cargarSesionGuardada_def guardado_def cerrarSesion_efecto)
    qed
  qed
qed

lemma cargar_coherente:
  assumes "sesion_coherente (estado w)" and "\<not> usuario_falso E w"
  shows "sesion_coherente (estado (snd (cargarSesionGuardada E w)))"
proof (cases "localStorage w ''token''")
  case None
  with assms(1) show ?thesis by (simp add: cargar_estado)
next
  case (Some t)
  note t = this
  show ?thesis
  proof (cases "localStorage w ''user''")
    case None
    with t assms(1) show ?thesis by (simp add: cargar_estado)
  next
    case (Some u)
    note u = this
    show ?thesis
    proof (cases "JSON_parse E u")
      case None
      with t u assms(1) show ?thesis
        by (simp add: cargar_estado sesion_coherente_def)
    next
      case (Some v)
      with t u assms show ?thesis
        by (cases v) (auto simp add: cargar_estado sesion_coherente_def usuario_falso_def)
    qed
  qed
qed

lemma cargar_usuario_falso:
  assumes "usuario_falso E w"
  shows "truthy (token (estado (snd (cargarSesionGuardada E w))))"
    and "\<not> truthy (usuario (estado (snd (cargarSesionGuardada E w))))"
  using assms
  by (auto simp add: cargar_estado usuario_falso_def split: option.splits)

lemma cargar_resultado: "fst (cargarSesionGuardada E w) = None"
  by (simp add: cargarSesionGuardada_def Let_def cerrarSesion_efecto
      split: option.splits sum.splits)

lemma cargar_solo_lee_token_y_user:
  assumes "localStorage w ''token'' = localStorage w' ''token''"
    and "localStorage w ''user'' = localStorage w' ''user''"
    and "estado w = estado w'"
  shows "estado (snd (cargarSesionGuardada E w)) = estado (snd (cargarSesionGuardada E w'))"
  unfolding cargar_estado assms by (rule refl)

lemma cargar_almacen_otras_claves:
  "k \<notin> claves_sesion \<Longrightarrow> localStorage (snd (cargarSesionGuardada E w)) k = localStorage w k"
  by (simp add: cargarSesionGuardada_def Let_def cerrarSesion_efecto claves_sesion_def
      split: option.splits sum.splits)

section \<open>Cart: auxiliary facts\<close>

lemma merge_line_presente:
  "itemId it \<in> itemId ` set ls \<Longrightarrow> distinct (map itemId ls) \<Longrightarrow>
   merge_line it q ls =
     map (\<lambda>l. if itemId l = itemId it then l\<lparr>quantity := quantity l + q\<rparr> else l) ls"
proof (induction ls)
  case Nil
  then show ?case by simp
next
  case (Cons l ls)
  show ?case
  proof (cases "itemId l = itemId it")
    case True
    with Cons.prems have "\<forall>x \<in> set ls. itemId x \<noteq> itemId it"
      by (metis distinct.simps(2) image_eqI list.simps(9) list.set_map)
    then have "map (\<lambda>l. if itemId l = itemId it then l\<lparr>quantity := quantity l + q\<rparr> else l) ls = ls"
      by (induction ls) auto
    with True show ?thesis by simp
  next
    case False
    with Cons show ?thesis by auto
  qed
qed

lemma merge_line_ausente:
  "itemId it \<notin> itemId ` set ls \<Longrightarrow>
   merge_line it q ls =
     ls @ [\<lparr>itemId = itemId it, name = name it, unitPrice = unitPrice it, quantity = q\<rparr>]"
  by (induction ls) auto

lemma merge_line_ids:
  "map itemId (merge_line it q ls) =
     (if itemId it \<in> itemId ` set ls then map itemId ls else map itemId ls @ [itemId it])"
  by (induction ls) auto

lemma cart_step_total: "total (cart_step c x) = cart_sum (items (cart_step c x))"
  by (cases x) (simp_all add: addItem_def removeItem_def Let_def)

lemma cart_step_distinct:
  "distinct (map itemId (items c)) \<Longrightarrow> distinct (map itemId (items (cart_step c x)))"
  by (cases x) (auto simp add: addItem_def removeItem_def Let_def merge_line_ids distinct_map_filter)

lemma cart_run_inv:
  "total c = cart_sum (items c) \<and> distinct (map itemId (items c)) \<Longrightarrow>
   total (cart_run xs c) = cart_sum (items (cart_run xs c))
   \<and> distinct (map itemId (items (cart_run xs c)))"
  unfolding cart_run_def
proof (induction xs arbitrary: c)
  case Nil
  then show ?case by simp
next
  case (Cons x xs)
  have "total (cart_step c x) = cart_sum (items (cart_step c x))
        \<and> distinct (map itemId (items (cart_step c x)))"
    using Cons.prems by (simp add: cart_step_total cart_step_distinct)
  from Cons.IH [OF this] show ?case by simp
qed

section \<open>Catalogue: auxiliary facts\<close>

lemma set_insertar_por: "set (insertar_por le x xs) = insert x (set xs)"
  by (induction xs) auto

lemma set_ordenar_por: "set (ordenar_por le xs) = set xs"
  unfolding ordenar_por_def by (induction xs) (simp_all add: set_insertar_por)

lemma obtenerImagenes_activas:
  "obtenerImagenes le db = Inr imgs \<Longrightarrow> i \<in> set imgs \<Longrightarrow> activo i = Some 1"
  by (auto simp add: obtenerImagenes_def set_ordenar_por imagen.truncate_def
      split: sum.splits if_splits)

text \<open>
  With exactly the columns that \<^verbatim>\<open>initdb.js\<close> creates, the table has no column
  \<^verbatim>\<open>nombre\<close>: the query is rejected and the controller answers 500.
\<close>

lemma getImagenes_esquema_initdb:
  "columnas_extra t = [] \<Longrightarrow>
   getImagenes le (Inr t) =
     \<lparr>status = 500,
      body = \<lparr>success = False, message = ''Error interno del servidor'', data = None,
              error = Some (mensaje (ER_BAD_FIELD_ERROR ''nombre'' ''order clause''))\<rparr>\<rparr>"
  by (simp add: getImagenes_def obtenerImagenes_def)

section \<open>Properties\<close>

text \<open>
  Claim C8, amended. \<^verbatim>\<open>guardarSesion\<close> checks nothing: for every token and every user
  value it overwrites the in-memory token and user with its arguments. Whenever the
  string conversion of the token succeeds, it writes the key \<^verbatim>\<open>token\<close> with that string
  and the key \<^verbatim>\<open>user\<close> with the serialised user, and ends with a TypeError exactly when
  the user is \<^verbatim>\<open>null\<close> or \<^verbatim>\<open>undefined\<close>, after the writes. The conversion succeeds for
  every string, stored as it is, for \<^verbatim>\<open>null\<close> and \<^verbatim>\<open>undefined\<close>, stored as the texts
  \<^verbatim>\<open>null\<close> and \<^verbatim>\<open>undefined\<close>, and for an object without an own property
  \<^verbatim>\<open>toString\<close>, stored as \<^verbatim>\<open>[object Object]\<close>. Whenever the conversion throws, as it
  does for an object with an own property \<^verbatim>\<open>toString\<close>, the function ends with that
  error and writes neither key.
\<close>

theorem guardarSesion_sin_comprobacion:
  "token (estado (snd (guardarSesion E tk usr w))) = tk
   \<and> usuario (estado (snd (guardarSesion E tk usr w))) = usr
   \<and> (ToString E tk = Inr s \<longrightarrow>
        localStorage (snd (guardarSesion E tk usr w)) ''token'' = Some s
        \<and> localStorage (snd (guardarSesion E tk usr w)) ''user'' =
            Some (case JSON_stringify E usr of None \<Rightarrow> ''undefined'' | Some j \<Rightarrow> j)
        \<and> fst (guardarSesion E tk usr w) =
            (if usr = JNull \<or> usr = JUndefined then Some TypeError else None))
   \<and> (ToString E tk = Inl e \<longrightarrow>
        fst (guardarSesion E tk usr w) = Some e
        \<and> localStorage (snd (guardarSesion E tk usr w)) = localStorage w)
   \<and> localStorage (snd (guardarSesion E (JStr t) usr w)) ''token'' = Some t
   \<and> localStorage (snd (guardarSesion E JNull usr w)) ''token'' = Some ''null''
   \<and> localStorage (snd (guardarSesion E JUndefined usr w)) ''token'' = Some ''undefined''
   \<and> (''toString'' \<notin> set (map fst fs) \<longrightarrow>
        localStorage (snd (guardarSesion E (JObj fs) usr w)) ''token'' = Some ''[object Object]'')
   \<and> (''toString'' \<in> set (map fst fs) \<longrightarrow>
        fst (guardarSesion E (JObj fs) usr w) = Some TypeError
        \<and> localStorage (snd (guardarSesion E (JObj fs) usr w)) = localStorage w)"
proof (intro conjI impI)
  show "token (estado (snd (guardarSesion E tk usr w))) = tk"
    and "usuario (estado (snd (guardarSesion E tk usr w))) = usr"
    by (simp_all add: guardarSesion_estado)
next
  assume c: "ToString E tk = Inr s"
  show "localStorage (snd (guardarSesion E tk usr w)) ''token'' = Some s"
    and "localStorage (snd (guardarSesion E tk usr w)) ''user'' =
            Some (case JSON_stringify E usr of None \<Rightarrow> ''undefined'' | Some j \<Rightarrow> j)"
    and "fst (guardarSesion E tk usr w) =
            (if usr = JNull \<or> usr = JUndefined then Some TypeError else None)"
    by (simp_all add: guardarSesion_convertible [OF c])
next
  assume c: "ToString E tk = Inl e"
  show "fst (guardarSesion E tk usr w) = Some e"
    and "localStorage (snd (guardarSesion E tk usr w)) = localStorage w"
    by (simp_all add: guardarSesion_no_convertible [OF c])
next
  have c: "ToString E (JStr t) = Inr t" by simp
  show "localStorage (snd (guardarSesion E (JStr t) usr w)) ''token'' = Some t"
    by (simp add: guardarSesion_convertible [OF c])
next
  have c: "ToString E JNull = Inr ''null''" by simp
  show "localStorage (snd (guardarSesion E JNull usr w)) ''token'' = Some ''null''"
    by (simp add: guardarSesion_convertible [OF c])
next
  have c: "ToString E JUndefined = Inr ''undefined''" by simp
  show "localStorage (snd (guardarSesion E JUndefined usr w)) ''token'' = Some ''undefined''"
    by (simp add: guardarSesion_convertible [OF c])
next
  assume "''toString'' \<notin> set (map fst fs)"
  then have c: "ToString E (JObj fs) = Inr ''[object Object]''" by simp
  show "localStorage (snd (guardarSesion E (JObj fs) usr w)) ''token'' = Some ''[object Object]''"
    by (simp add: guardarSesion_convertible [OF c])
next
  assume "''toString'' \<in> set (map fst fs)"
  then have c: "ToString E (JObj fs) = Inl TypeError" by simp
  show "fst (guardarSesion E (JObj fs) usr w) = Some TypeError"
    and "localStorage (snd (guardarSesion E (JObj fs) usr w)) = localStorage w"
    by (simp_all add: guardarSesion_no_convertible [OF c])
qed

theorem guardarSesion_sin_comprobacion_witness:
  "ToString (entorno_ejemplo FetchRejects) (JNum 1000000000000000000000) = Inr ''1e+21''
   \<and> localStorage (snd (guardarSesion (entorno_ejemplo FetchRejects) (JNum 1000000000000000000000) JNull
        (mundo_inicial Map.empty))) ''token'' = Some ''1e+21''
   \<and> localStorage (snd (guardarSesion (entorno_ejemplo FetchRejects) (JNum 1000000000000000000000) JNull
        (mundo_inicial Map.empty))) ''user'' = Some ''undefined''
   \<and> fst (guardarSesion (entorno_ejemplo FetchRejects) (JNum 1000000000000000000000) JNull (mundo_inicial Map.empty))
       = Some TypeError
   \<and> ToString (entorno_ejemplo FetchRejects) (JArr [JNum 7, token_sin_texto]) = Inl TypeError
   \<and> fst (guardarSesion (entorno_ejemplo FetchRejects) (JArr [JNum 7, token_sin_texto]) usuario_ana
        (mundo_inicial Map.empty)) = Some TypeError
   \<and> localStorage (snd (guardarSesion (entorno_ejemplo FetchRejects) (JArr [JNum 7, token_sin_texto]) usuario_ana
        (mundo_inicial Map.empty))) = Map.empty
   \<and> ''toString'' \<notin> set (map fst [(''id'', JNum 1)])
   \<and> localStorage (snd (guardarSesion (entorno_ejemplo FetchRejects) (JObj [(''id'', JNum 1)]) usuario_ana
        (mundo_inicial Map.empty))) ''token'' = Some ''[object Object]''
   \<and> ''toString'' \<in> set (map fst [(''id'', JNum 1), (''toString'', JNull)])
   \<and> fst (guardarSesion (entorno_ejemplo FetchRejects) (JObj [(''id'', JNum 1), (''toString'', JNull)]) usuario_ana
        (mundo_inicial Map.empty)) = Some TypeError"
proof -
  have a: "ToString (entorno_ejemplo FetchRejects) (JNum 1000000000000000000000) = Inr ''1e+21''"
    by (simp add: entorno_ejemplo_def)
  have b: "ToString (entorno_ejemplo FetchRejects) (JArr [JNum 7, token_sin_texto]) = Inl TypeError"
    by (simp add: token_sin_texto_def decimal_int_def decimal.simps digito_def)
  have n: "JSON_stringify (entorno_ejemplo FetchRejects) JNull = None"
    by (simp add: entorno_ejemplo_def tabla_json_def usuario_ana_def)
  from guardarSesion_sin_comprobacion [of "entorno_ejemplo FetchRejects" "JNum 1000000000000000000000" JNull
      "mundo_inicial Map.empty" "''1e+21''" TypeError "[]" "[(''id'', JNum 1)]"]
    guardarSesion_sin_comprobacion [of "entorno_ejemplo FetchRejects" "JArr [JNum 7, token_sin_texto]" usuario_ana
      "mundo_inicial Map.empty" "[]" TypeError "[]" "[(''id'', JNum 1), (''toString'', JNull)]"]
    guardarSesion_sin_comprobacion [of "entorno_ejemplo FetchRejects" JNull usuario_ana
      "mundo_inicial Map.empty" "''null''" TypeError "[]" "[(''id'', JNum 1)]"]
    a b n
  show ?thesis
    by (simp add: mundo_inicial_def)
qed

text \<open>
  Claim C8 as stated fails: for the token \<^verbatim>\<open>{toString: 1}\<close> the conversion inside
  \<^verbatim>\<open>setItem\<close> throws, and neither persisted key is written.
\<close>

theorem guardarSesion_token_sin_texto:
  "token (estado (snd (guardarSesion (entorno_ejemplo FetchRejects) token_sin_texto usuario_ana
      (mundo_inicial Map.empty)))) = JObj [(''toString'', JNum 1)]
   \<and> fst (guardarSesion (entorno_ejemplo FetchRejects) token_sin_texto usuario_ana (mundo_inicial Map.empty))
       = Some TypeError
   \<and> localStorage (snd (guardarSesion (entorno_ejemplo FetchRejects) token_sin_texto usuario_ana
        (mundo_inicial Map.empty))) ''token'' = None
   \<and> localStorage (snd (guardarSesion (entorno_ejemplo FetchRejects) token_sin_texto usuario_ana
        (mundo_inicial Map.empty))) ''user'' = None"
  by (simp add: guardarSesion_def Let_def token_sin_texto_def mundo_inicial_def)

text \<open>
  Claim C1, amended. Presence is the script's own test, truthiness. \<^verbatim>\<open>cerrarSesion\<close>
  leaves the token and the user both \<^verbatim>\<open>null\<close>. \<^verbatim>\<open>guardarSesion\<close> sets the in-memory
  token and user to its arguments, so that afterwards they are both present or both
  absent exactly when the arguments are; they are both present for a non-empty token
  string and a user object. \<^verbatim>\<open>cargarSesionGuardada\<close> keeps a coherent session coherent
  unless both stored strings are non-empty and the stored user text parses to a falsy
  value other than \<^verbatim>\<open>null\<close> (\<^verbatim>\<open>0\<close>, \<^verbatim>\<open>false\<close>, \<^verbatim>\<open>""\<close>); in that case it leaves the token
  present and the user absent. When the stored token or the stored user is missing or
  empty, \<^verbatim>\<open>cargarSesionGuardada\<close> changes nothing, so a session absent at page load
  stays absent.
\<close>

theorem sesion_coherente_operaciones:
  "token (estado (snd (cerrarSesion E w))) = JNull
   \<and> usuario (estado (snd (cerrarSesion E w))) = JNull
   \<and> token (estado (snd (guardarSesion E tk usr w))) = tk
   \<and> usuario (estado (snd (guardarSesion E tk usr w))) = usr
   \<and> sesion_coherente (estado (snd (guardarSesion E tk usr w))) = (truthy tk = truthy usr)
   \<and> (t \<noteq> [] \<longrightarrow>
        truthy (token (estado (snd (guardarSesion E (JStr t) (JObj fs) w))))
        \<and> truthy (usuario (estado (snd (guardarSesion E (JStr t) (JObj fs) w)))))
   \<and> (sesion_coherente (estado w) \<and> \<not> usuario_falso E w \<longrightarrow>
        sesion_coherente (estado (snd (cargarSesionGuardada E w))))
   \<and> (usuario_falso E w \<longrightarrow>
        truthy (token (estado (snd (cargarSesionGuardada E w))))
        \<and> \<not> truthy (usuario (estado (snd (cargarSesionGuardada E w)))))
   \<and> (\<not> (guardado (localStorage w ''token'') \<and> guardado (localStorage w ''user'')) \<longrightarrow>
        cargarSesionGuardada E w = (None, w))"
proof (intro conjI impI)
  show "token (estado (snd (cerrarSesion E w))) = JNull"
    and "usuario (estado (snd (cerrarSesion E w))) = JNull"
    by (simp_all add: cerrarSesion_efecto)
next
  show "token (estado (snd (guardarSesion E tk usr w))) = tk"
    and "usuario (estado (snd (guardarSesion E tk usr w))) = usr"
    and "sesion_coherente (estado (snd (guardarSesion E tk usr w))) = (truthy tk = truthy usr)"
    by (simp_all add: guardarSesion_estado sesion_coherente_def)
next
  assume "t \<noteq> []"
  then show "truthy (token (estado (snd (guardarSesion E (JStr t) (JObj fs) w))))"
    and "truthy (usuario (estado (snd (guardarSesion E (JStr t) (JObj fs) w))))"
    by (simp_all add: guardarSesion_estado)
next
  assume "sesion_coherente (estado w) \<and> \<not> usuario_falso E w"
  then show "sesion_coherente (estado (snd (cargarSesionGuardada E w)))"
    by (simp add: cargar_coherente)
next
  assume f: "usuario_falso E w"
  show "truthy (token (estado (snd (cargarSesionGuardada E w))))"
    and "\<not> truthy (usuario (estado (snd (cargarSesionGuardada E w))))"
    by (rule cargar_usuario_falso [OF f])+
next
  assume "\<not> (guardado (localStorage w ''token'') \<and> guardado (localStorage w ''user''))"
  then show "cargarSesionGuardada E w = (None, w)"
    by (rule cargar_sin_claves)
qed

theorem sesion_coherente_operaciones_witness:
  \<open>''abc'' \<noteq> []
   \<and> sesion_coherente (estado (mundo_inicial almacen_ana))
   \<and> \<not> usuario_falso (entorno_ejemplo FetchRejects) (mundo_inicial almacen_ana)
   \<and> estado (snd (cargarSesionGuardada (entorno_ejemplo FetchRejects) (mundo_inicial almacen_ana)))
       = \<lparr>usuario = usuario_ana, token = JStr ''abc'', carrito = carrito_vacio\<rparr>
   \<and> sesion_coherente (estado (snd (cargarSesionGuardada (entorno_ejemplo FetchRejects) (mundo_inicial almacen_ana))))
   \<and> usuario_falso (entorno_ejemplo FetchRejects) (mundo_inicial almacen_usuario_false)
   \<and> truthy (token (estado (snd (cargarSesionGuardada (entorno_ejemplo FetchRejects)
        (mundo_inicial almacen_usuario_false)))))
   \<and> \<not> truthy (usuario (estado (snd (cargarSesionGuardada (entorno_ejemplo FetchRejects)
        (mundo_inicial almacen_usuario_false)))))
   \<and> \<not> (guardado (localStorage (mundo_inicial [''token'' \<mapsto> ''abc'']) ''token'')
          \<and> guardado (localStorage (mundo_inicial [''token'' \<mapsto> ''abc'']) ''user''))
   \<and> cargarSesionGuardada (entorno_ejemplo FetchRejects) (mundo_inicial [''token'' \<mapsto> ''abc''])
       = (None, mundo_inicial [''token'' \<mapsto> ''abc''])
   \<and> truthy (token (estado (snd (guardarSesion (entorno_ejemplo FetchRejects) (JStr ''abc'') usuario_ana
        (mundo_inicial Map.empty)))))
   \<and> truthy (usuario (estado (snd (guardarSesion (entorno_ejemplo FetchRejects) (JStr ''abc'') usuario_ana
        (mundo_inicial Map.empty)))))
   \<and> token (estado (snd (cerrarSesion (entorno_ejemplo FetchRejects) (mundo_inicial almacen_ana)))) = JNull
   \<and> usuario (estado (snd (cerrarSesion (entorno_ejemplo FetchRejects) (mundo_inicial almacen_ana)))) = JNull\<close>
proof -
  have a: "sesion_coherente (estado (mundo_inicial almacen_ana))"
    by (simp add: mundo_inicial_def estado_inicial_def sesion_coherente_def)
  have b: "\<not> usuario_falso (entorno_ejemplo FetchRejects) (mundo_inicial almacen_ana)"
    by (simp add: usuario_falso_def mundo_inicial_def almacen_ana_def entorno_ejemplo_def
        tabla_json_def usuario_ana_def)
  have c: "estado (snd (cargarSesionGuardada (entorno_ejemplo FetchRejects) (mundo_inicial almacen_ana)))
       = \<lparr>usuario = usuario_ana, token = JStr ''abc'', carrito = carrito_vacio\<rparr>"
    by (simp add: cargar_estado mundo_inicial_def almacen_ana_def entorno_ejemplo_def
        tabla_json_def usuario_ana_def estado_inicial_def)
  have d: "usuario_falso (entorno_ejemplo FetchRejects) (mundo_inicial almacen_usuario_false)"
    by (simp add: usuario_falso_def mundo_inicial_def almacen_usuario_false_def
        entorno_ejemplo_def tabla_json_def usuario_ana_def)
  have e: "\<not> (guardado (localStorage (mundo_inicial [''token'' \<mapsto> ''abc'']) ''token'')
          \<and> guardado (localStorage (mundo_inicial [''token'' \<mapsto> ''abc'']) ''user''))"
    by (simp add: mundo_inicial_def guardado_def)
  from sesion_coherente_operaciones [of "entorno_ejemplo FetchRejects" "mundo_inicial almacen_ana" "JStr ''abc''"
        usuario_ana "''abc''" "[]"]
    sesion_coherente_operaciones [of "entorno_ejemplo FetchRejects" "mundo_inicial almacen_usuario_false" "JStr ''abc''"
        usuario_ana "''abc''" "[]"]
    sesion_coherente_operaciones [of "entorno_ejemplo FetchRejects" "mundo_inicial [''token'' \<mapsto> ''abc'']" "JStr ''abc''"
        usuario_ana "''abc''" "[(''id'', JNum 1), (''nombre'', JStr ''Ana''), (''email'', JStr ''a@x.com'')]"]
    sesion_coherente_operaciones [of "entorno_ejemplo FetchRejects" "mundo_inicial Map.empty" "JStr ''abc''"
        usuario_ana "''abc''" "[(''id'', JNum 1), (''nombre'', JStr ''Ana''), (''email'', JStr ''a@x.com'')]"]
    a b c d e
  show ?thesis
    by (simp add: usuario_ana_def)
qed

text \<open>
  Claim C1 as stated fails: with the stored user text \<^verbatim>\<open>0\<close>, which is valid JSON,
  \<^verbatim>\<open>cargarSesionGuardada\<close> completes normally and leaves the token present and the user
  \<^verbatim>\<open>0\<close>, which the script takes for absent.
\<close>

theorem restaurar_usuario_cero:
  "almacen_usuario_cero ''token'' = Some ''abc''
   \<and> almacen_usuario_cero ''user'' = Some ''0''
   \<and> JSON_parse (entorno_ejemplo FetchRejects) ''0'' = Some (JNum 0)
   \<and> sesion_coherente (estado (mundo_inicial almacen_usuario_cero))
   \<and> fst (cargarSesionGuardada (entorno_ejemplo FetchRejects) (mundo_inicial almacen_usuario_cero)) = None
   \<and> token (estado (snd (cargarSesionGuardada (entorno_ejemplo FetchRejects) (mundo_inicial almacen_usuario_cero))))
       = JStr ''abc''
   \<and> usuario (estado (snd (cargarSesionGuardada (entorno_ejemplo FetchRejects) (mundo_inicial almacen_usuario_cero))))
       = JNum 0
   \<and> truthy (JStr ''abc'') \<and> \<not> truthy (JNum 0)
   \<and> \<not> sesion_coherente (estado (snd (cargarSesionGuardada (entorno_ejemplo FetchRejects)
        (mundo_inicial almacen_usuario_cero))))"
  by (simp add: cargarSesionGuardada_def Let_def guardado_def mundo_inicial_def
      almacen_usuario_cero_def entorno_ejemplo_def tabla_json_def usuario_ana_def
      sesion_coherente_def estado_inicial_def)

text \<open>
  Claim C2. For a non-empty token string and a user object that the platform's JSON
  codec round-trips, \<^verbatim>\<open>guardarSesion\<close> followed, after a reload, by
  \<^verbatim>\<open>cargarSesionGuardada\<close> completes normally and restores the same token and the same
  user.
\<close>

theorem guardar_y_restaurar:
  assumes "t \<noteq> []" and "json_ida_y_vuelta E (JObj fs)"
  shows "fst (guardarSesion E (JStr t) (JObj fs) w) = None
    \<and> fst (cargarSesionGuardada E (recarga (snd (guardarSesion E (JStr t) (JObj fs) w)))) = None
    \<and> token (estado (snd (cargarSesionGuardada E
          (recarga (snd (guardarSesion E (JStr t) (JObj fs) w)))))) = JStr t
    \<and> usuario (estado (snd (cargarSesionGuardada E
          (recarga (snd (guardarSesion E (JStr t) (JObj fs) w)))))) = JObj fs"
proof -
  let ?w1 = "recarga (snd (guardarSesion E (JStr t) (JObj fs) w))"
  have c: "ToString E (JStr t) = Inr t" by simp
  from assms(2) obtain j where j: "JSON_stringify E (JObj fs) = Some j" "j \<noteq> []"
      "JSON_parse E j = Some (JObj fs)"
    by (auto simp add: json_ida_y_vuelta_def split: option.splits)
  have f: "fst (guardarSesion E (JStr t) (JObj fs) w) = None"
    by (simp add: guardarSesion_convertible [OF c])
  have tk: "localStorage ?w1 ''token'' = Some t"
    by (simp add: recarga_def guardarSesion_convertible [OF c])
  have us: "localStorage ?w1 ''user'' = Some j"
    by (simp add: recarga_def guardarSesion_convertible [OF c] j)
  have e: "estado (snd (cargarSesionGuardada E ?w1)) =
      (estado ?w1)\<lparr>token := JStr t, usuario := JObj fs\<rparr>"
    using assms(1) j by (simp add: cargar_estado tk us)
  from f e show ?thesis
    by (simp add: cargar_resultado)
qed

theorem guardar_y_restaurar_witness:
  "''abc'' \<noteq> [] \<and> json_ida_y_vuelta (entorno_ejemplo FetchRejects) usuario_ana
   \<and> estado (snd (cargarSesionGuardada (entorno_ejemplo FetchRejects)
        (recarga (snd (guardarSesion (entorno_ejemplo FetchRejects) (JStr ''abc'') usuario_ana
           (mundo_inicial Map.empty))))))
     = \<lparr>usuario = usuario_ana, token = JStr ''abc'', carrito = carrito_vacio\<rparr>"
proof -
  have h: "json_ida_y_vuelta (entorno_ejemplo FetchRejects) (JObj [(''id'', JNum 1), (''nombre'', JStr ''Ana''), (''email'', JStr ''a@x.com'')])"
    by (simp add: json_ida_y_vuelta_def entorno_ejemplo_def tabla_json_def usuario_ana_def)
  have t: "''abc'' \<noteq> []" by simp
  have c: "ToString (entorno_ejemplo FetchRejects) (JStr ''abc'') = Inr ''abc''" by simp
  have e: "carrito (estado (snd (cargarSesionGuardada (entorno_ejemplo FetchRejects)
        (recarga (snd (guardarSesion (entorno_ejemplo FetchRejects) (JStr ''abc'')
           (JObj [(''id'', JNum 1), (''nombre'', JStr ''Ana''), (''email'', JStr ''a@x.com'')])
           (mundo_inicial Map.empty))))))) = carrito_vacio"
    by (simp add: cargar_estado recarga_def guardarSesion_convertible [OF c])
       (simp add: entorno_ejemplo_def tabla_json_def usuario_ana_def estado_inicial_def)
  from guardar_y_restaurar [OF t h, of "mundo_inicial Map.empty"] h e
  show ?thesis
    by (simp add: usuario_ana_def estado.equality)
qed

text \<open>
  Claim C3, amended. When the key \<^verbatim>\<open>token\<close> holds a non-empty string and the key
  \<^verbatim>\<open>user\<close> holds a non-empty string that is not valid JSON,
  \<^verbatim>\<open>cargarSesionGuardada\<close> completes without an error and leaves the token and the
  user absent, the cart empty and the keys \<^verbatim>\<open>token\<close>, \<^verbatim>\<open>user\<close> and \<^verbatim>\<open>carrito\<close>
  removed. When one of the two stored strings is empty, it changes nothing.
\<close>

theorem restaurar_sesion_corrupta:
  assumes "localStorage w ''token'' = Some t" and "localStorage w ''user'' = Some u"
    and "JSON_parse E u = None"
  shows "(t \<noteq> [] \<and> u \<noteq> [] \<longrightarrow>
            fst (cargarSesionGuardada E w) = None
          \<and> token (estado (snd (cargarSesionGuardada E w))) = JNull
          \<and> usuario (estado (snd (cargarSesionGuardada E w))) = JNull
          \<and> carrito (estado (snd (cargarSesionGuardada E w))) = \<lparr>items = [], total = 0\<rparr>
          \<and> localStorage (snd (cargarSesionGuardada E w)) ''token'' = None
          \<and> localStorage (snd (cargarSesionGuardada E w)) ''user'' = None
          \<and> localStorage (snd (cargarSesionGuardada E w)) ''carrito'' = None)
       \<and> (t = [] \<or> u = [] \<longrightarrow> cargarSesionGuardada E w = (None, w))"
  using assms
  by (simp add: cargarSesionGuardada_def Let_def guardado_def cerrarSesion_efecto)

theorem restaurar_sesion_corrupta_witness:
  \<open>almacen_corrupto ''token'' = Some ''abc'' \<and> almacen_corrupto ''user'' = Some ''{"id":1,''
   \<and> JSON_parse (entorno_ejemplo FetchRejects) ''{"id":1,'' = None
   \<and> ''abc'' \<noteq> [] \<and> ''{"id":1,'' \<noteq> []
   \<and> cargarSesionGuardada (entorno_ejemplo FetchRejects)
        ((mundo_inicial almacen_corrupto)\<lparr>estado := \<lparr>usuario = usuario_ana, token = JStr ''abc'',
            carrito = \<lparr>items = [\<lparr>itemId = 1, name = ''X'', unitPrice = 10, quantity = 2\<rparr>], total = 20\<rparr>\<rparr>\<rparr>)
      = (None, \<lparr>estado = estado_inicial, localStorage = Map.empty,
                documento = \<lparr>authSection = Some False, authNav = Some NavAnonimo,
                  tiendaSection = Some True, productosMostrar = Some False\<rparr>, alertas = []\<rparr>)
   \<and> almacen_token_vacio ''token'' = Some [] \<and> almacen_token_vacio ''user'' = Some ''{"id":1,''
   \<and> cargarSesionGuardada (entorno_ejemplo FetchRejects) (mundo_inicial almacen_token_vacio)
      = (None, mundo_inicial almacen_token_vacio)\<close>
proof -
  let ?w = "(mundo_inicial almacen_corrupto)\<lparr>estado := \<lparr>usuario = usuario_ana, token = JStr ''abc'',
            carrito = \<lparr>items = [\<lparr>itemId = 1, name = ''X'', unitPrice = 10, quantity = 2\<rparr>], total = 20\<rparr>\<rparr>\<rparr>"
  have a: \<open>localStorage ?w ''token'' = Some ''abc''\<close>
    by (simp add: mundo_inicial_def almacen_corrupto_def)
  have b: \<open>localStorage ?w ''user'' = Some ''{"id":1,''\<close>
    by (simp add: mundo_inicial_def almacen_corrupto_def)
  have c: \<open>JSON_parse (entorno_ejemplo FetchRejects) ''{"id":1,'' = None\<close>
    by (simp add: entorno_ejemplo_def tabla_json_def)
  have d: "documento (snd (cargarSesionGuardada (entorno_ejemplo FetchRejects) ?w)) = \<lparr>authSection = Some False, authNav = Some NavAnonimo,
                  tiendaSection = Some True, productosMostrar = Some False\<rparr>"
    using a b c
    by (simp add: cargarSesionGuardada_def Let_def guardado_def cerrarSesion_def
        mostrarInterfaz_def localStorage_removeItem_def mundo_inicial_def pagina_inicial_def)
  have e: "localStorage (snd (cargarSesionGuardada (entorno_ejemplo FetchRejects) ?w)) = Map.empty"
    using a b c
    by (simp add: cargarSesionGuardada_def Let_def guardado_def cerrarSesion_efecto
        mundo_inicial_def almacen_corrupto_def)
  have f: "alertas (snd (cargarSesionGuardada (entorno_ejemplo FetchRejects) ?w)) = []"
    using a b c
    by (simp add: cargarSesionGuardada_def Let_def guardado_def cerrarSesion_efecto
        mundo_inicial_def)
  have a': \<open>localStorage (mundo_inicial almacen_token_vacio) ''token'' = Some []\<close>
    by (simp add: mundo_inicial_def almacen_token_vacio_def)
  have b': \<open>localStorage (mundo_inicial almacen_token_vacio) ''user'' = Some ''{"id":1,''\<close>
    by (simp add: mundo_inicial_def almacen_token_vacio_def)
  have g: "cargarSesionGuardada (entorno_ejemplo FetchRejects) (mundo_inicial almacen_token_vacio)
      = (None, mundo_inicial almacen_token_vacio)"
    using restaurar_sesion_corrupta [OF a' b' c] by simp
  have h: "cargarSesionGuardada (entorno_ejemplo FetchRejects) ?w
      = (None, \<lparr>estado = estado_inicial, localStorage = Map.empty,
                documento = \<lparr>authSection = Some False, authNav = Some NavAnonimo,
                  tiendaSection = Some True, productosMostrar = Some False\<rparr>, alertas = []\<rparr>)"
    using restaurar_sesion_corrupta [OF a b c] d e f
    by (simp add: estado_inicial_def carrito_vacio_def prod_eq_iff world.equality
        estado.equality)
  from a' b' c g h show ?thesis
    by (simp add: mundo_inicial_def almacen_corrupto_def almacen_token_vacio_def)
qed

text \<open>
  Claim C3 as stated fails: with the token key present but empty and a malformed user
  entry, \<^verbatim>\<open>cargarSesionGuardada\<close> removes no key.
\<close>

theorem restaurar_token_vacio_no_limpia:
  \<open>almacen_token_vacio ''token'' = Some []
   \<and> almacen_token_vacio ''user'' = Some ''{"id":1,''
   \<and> almacen_token_vacio ''carrito'' = Some ''[]''
   \<and> JSON_parse (entorno_ejemplo FetchRejects) ''{"id":1,'' = None
   \<and> localStorage (snd (cargarSesionGuardada (entorno_ejemplo FetchRejects)
         (mundo_inicial almacen_token_vacio))) ''token'' = Some []
   \<and> localStorage (snd (cargarSesionGuardada (entorno_ejemplo FetchRejects)
         (mundo_inicial almacen_token_vacio))) ''user'' = Some ''{"id":1,''
   \<and> localStorage (snd (cargarSesionGuardada (entorno_ejemplo FetchRejects)
         (mundo_inicial almacen_token_vacio))) ''carrito'' = Some ''[]''\<close>
  by (simp add: cargarSesionGuardada_def Let_def guardado_def mundo_inicial_def
      almacen_token_vacio_def entorno_ejemplo_def tabla_json_def)

text \<open>
  Claim C4, amended. When the login request is answered with a status outside 200 to 299
  and a JSON object as body, \<^verbatim>\<open>iniciarSesion\<close> leaves the in-memory state and the
  persisted store unchanged and shows one alert: the fallback text if the body's
  \<^verbatim>\<open>message\<close> is missing or falsy (the empty string, \<^verbatim>\<open>null\<close>, \<^verbatim>\<open>false\<close>, 0); the string
  of the message if the message is truthy and converts to a string, which for a
  non-empty string is the string itself; and the connection message if the message is
  truthy and its conversion throws, as for an object with an own property
  \<^verbatim>\<open>toString\<close>.
\<close>

theorem login_rechazado:
  assumes "fetch E (URL_API @ ''/auth/login'')
             (JSON_stringify E (JObj [(''email'', JStr email), (''password'', JStr password)]))
           = FetchResponse st txt"
    and "\<not> respuesta_ok st"
    and "JSON_parse E txt = Some (JObj fs)"
  shows "estado (iniciarSesion E email password w) = estado w
    \<and> localStorage (iniciarSesion E email password w) = localStorage w
    \<and> alertas (iniciarSesion E email password w) =
        alertas w @ [case map_of fs ''message'' of
                       None \<Rightarrow> msg_error_login
                     | Some m \<Rightarrow>
                         if truthy m then
                           (case ToString E m of
                              Inl e \<Rightarrow> msg_sin_conexion
                            | Inr s \<Rightarrow> s)
                         else msg_error_login]
    \<and> (map_of fs ''message'' = Some (JStr s) \<and> s \<noteq> [] \<longrightarrow>
         alertas (iniciarSesion E email password w) = alertas w @ [s])
    \<and> (map_of fs ''message'' = Some (JObj ms) \<and> ''toString'' \<in> set (map fst ms) \<longrightarrow>
         alertas (iniciarSesion E email password w) = alertas w @ [msg_sin_conexion])"
  using assms
  by (simp add: iniciarSesion_def rama_error_def alert_def split: option.splits sum.splits)

theorem login_rechazado_witness:
  \<open>fetch (entorno_ejemplo (FetchResponse 401 ''{"message":"bad credentials"}''))
       (URL_API @ ''/auth/login'')
       (JSON_stringify (entorno_ejemplo (FetchResponse 401 ''{"message":"bad credentials"}''))
          (JObj [(''email'', JStr ''a@x.com''), (''password'', JStr ''secreto'')]))
     = FetchResponse 401 ''{"message":"bad credentials"}''
   \<and> \<not> respuesta_ok 401
   \<and> JSON_parse (entorno_ejemplo (FetchResponse 401 ''{"message":"bad credentials"}''))
         ''{"message":"bad credentials"}'' = Some (JObj [(''message'', JStr ''bad credentials'')])
   \<and> estado (iniciarSesion (entorno_ejemplo (FetchResponse 401 ''{"message":"bad credentials"}''))
         ''a@x.com'' ''secreto'' (mundo_inicial Map.empty)) = estado_inicial
   \<and> localStorage (iniciarSesion (entorno_ejemplo (FetchResponse 401 ''{"message":"bad credentials"}''))
         ''a@x.com'' ''secreto'' (mundo_inicial Map.empty)) = Map.empty
   \<and> alertas (iniciarSesion (entorno_ejemplo (FetchResponse 401 ''{"message":"bad credentials"}''))
         ''a@x.com'' ''secreto'' (mundo_inicial Map.empty)) = [''bad credentials'']
   \<and> JSON_parse (entorno_ejemplo (FetchResponse 403 ''{"message":{"toString":1}}''))
         ''{"message":{"toString":1}}''
       = Some (JObj [(''message'', JObj [(''toString'', JNum 1)])])
   \<and> \<not> respuesta_ok 403
   \<and> alertas (iniciarSesion (entorno_ejemplo (FetchResponse 403 ''{"message":{"toString":1}}''))
         ''a@x.com'' ''secreto'' (mundo_inicial Map.empty)) = [msg_sin_conexion]
   \<and> localStorage (iniciarSesion (entorno_ejemplo (FetchResponse 403 ''{"message":{"toString":1}}''))
         ''a@x.com'' ''secreto'' (mundo_inicial Map.empty)) = Map.empty\<close>
proof -
  let ?E = \<open>entorno_ejemplo (FetchResponse 401 ''{"message":"bad credentials"}'')\<close>
  let ?F = \<open>entorno_ejemplo (FetchResponse 403 ''{"message":{"toString":1}}'')\<close>
  have a: \<open>fetch ?E (URL_API @ ''/auth/login'')
       (JSON_stringify ?E (JObj [(''email'', JStr ''a@x.com''), (''password'', JStr ''secreto'')]))
     = FetchResponse 401 ''{"message":"bad credentials"}''\<close>
    by (simp add: entorno_ejemplo_def)
  have b: "\<not> respuesta_ok 401"
    by (simp add: respuesta_ok_def)
  have c: \<open>JSON_parse ?E ''{"message":"bad credentials"}''
        = Some (JObj [(''message'', JStr ''bad credentials'')])\<close>
    by (simp add: entorno_ejemplo_def tabla_json_def usuario_ana_def)
  have a': \<open>fetch ?F (URL_API @ ''/auth/login'')
       (JSON_stringify ?F (JObj [(''email'', JStr ''a@x.com''), (''password'', JStr ''secreto'')]))
     = FetchResponse 403 ''{"message":{"toString":1}}''\<close>
    by (simp add: entorno_ejemplo_def)
  have b': "\<not> respuesta_ok 403"
    by (simp add: respuesta_ok_def)
  have c': \<open>JSON_parse ?F ''{"message":{"toString":1}}''
        = Some (JObj [(''message'', JObj [(''toString'', JNum 1)])])\<close>
    by (simp add: entorno_ejemplo_def tabla_json_def usuario_ana_def)
  from login_rechazado [OF a b c, of "mundo_inicial Map.empty" "''bad credentials''" "[]"]
    login_rechazado [OF a' b' c', of "mundo_inicial Map.empty" "[]" "[(''toString'', JNum 1)]"]
    a b c b' c'
  show ?thesis
    by (simp add: mundo_inicial_def)
qed

text \<open>
  Claim C4 as stated fails: for the body \<^verbatim>\<open>{"message":""}\<close> the message is present,
  and the alert shows the fallback text, not the message.
\<close>

theorem login_mensaje_vacio:
  \<open>\<not> respuesta_ok 401
   \<and> JSON_parse (entorno_ejemplo (FetchResponse 401 ''{"message":""}'')) ''{"message":""}''
       = Some (JObj [(''message'', JStr [])])
   \<and> alertas (iniciarSesion (entorno_ejemplo (FetchResponse 401 ''{"message":""}''))
         ''a@x.com'' ''secreto'' (mundo_inicial Map.empty)) = [msg_error_login]
   \<and> msg_error_login \<noteq> []\<close>
  by (simp add: iniciarSesion_def rama_error_def alert_def entorno_ejemplo_def tabla_json_def
      usuario_ana_def respuesta_ok_def mundo_inicial_def msg_error_login_def)

text \<open>
  Claim C6, amended. The session functions address exactly the keys \<^verbatim>\<open>token\<close>,
  \<^verbatim>\<open>user\<close> and \<^verbatim>\<open>carrito\<close>: \<^verbatim>\<open>guardarSesion\<close> leaves every key but \<^verbatim>\<open>token\<close> and
  \<^verbatim>\<open>user\<close> as it was, writes these two when the token converts to a string, and
  writes nothing when that conversion throws; \<^verbatim>\<open>cerrarSesion\<close> removes the three keys
  and leaves every other key as it was; \<^verbatim>\<open>cargarSesionGuardada\<close> leaves every other
  key as it was, and the session it yields depends on the store only through \<^verbatim>\<open>token\<close>
  and \<^verbatim>\<open>user\<close>.
\<close>

theorem claves_persistidas:
  "(k \<notin> {''token'', ''user''} \<longrightarrow>
      localStorage (snd (guardarSesion E tk usr w)) k = localStorage w k)
   \<and> (ToString E tk = Inr s \<longrightarrow>
        localStorage (snd (guardarSesion E tk usr w)) ''token'' = Some s
        \<and> localStorage (snd (guardarSesion E tk usr w)) ''user'' =
            Some (case JSON_stringify E usr of None \<Rightarrow> ''undefined'' | Some j \<Rightarrow> j))
   \<and> (ToString E tk = Inl e \<longrightarrow>
        localStorage (snd (guardarSesion E tk usr w)) = localStorage w)
   \<and> (k \<notin> claves_sesion \<longrightarrow> localStorage (snd (cerrarSesion E w)) k = localStorage w k)
   \<and> (\<forall>c \<in> claves_sesion. localStorage (snd (cerrarSesion E w)) c = None)
   \<and> (k \<notin> claves_sesion \<longrightarrow>
        localStorage (snd (cargarSesionGuardada E w)) k = localStorage w k)
   \<and> (localStorage w ''token'' = localStorage w' ''token''
        \<and> localStorage w ''user'' = localStorage w' ''user'' \<and> estado w = estado w' \<longrightarrow>
        estado (snd (cargarSesionGuardada E w)) = estado (snd (cargarSesionGuardada E w'))
        \<and> fst (cargarSesionGuardada E w) = fst (cargarSesionGuardada E w'))"
proof (intro conjI impI ballI)
  assume "k \<notin> {''token'', ''user''}"
  then show "localStorage (snd (guardarSesion E tk usr w)) k = localStorage w k"
    by (rule guardarSesion_otras_claves)
next
  assume c: "ToString E tk = Inr s"
  show "localStorage (snd (guardarSesion E tk usr w)) ''token'' = Some s"
    and "localStorage (snd (guardarSesion E tk usr w)) ''user'' =
            Some (case JSON_stringify E usr of None \<Rightarrow> ''undefined'' | Some j \<Rightarrow> j)"
    by (simp_all add: guardarSesion_convertible [OF c])
next
  assume c: "ToString E tk = Inl e"
  show "localStorage (snd (guardarSesion E tk usr w)) = localStorage w"
    by (rule guardarSesion_no_convertible [OF c])
next
  assume "k \<notin> claves_sesion"
  then show "localStorage (snd (cerrarSesion E w)) k = localStorage w k"
    by (simp add: cerrarSesion_efecto claves_sesion_def)
next
  fix c assume "c \<in> claves_sesion"
  then show "localStorage (snd (cerrarSesion E w)) c = None"
    unfolding claves_sesion_def by (elim insertE emptyE; simp add: cerrarSesion_efecto)
next
  assume "k \<notin> claves_sesion"
  then show "localStorage (snd (cargarSesionGuardada E w)) k = localStorage w k"
    by (rule cargar_almacen_otras_claves)
next
  assume h: "localStorage w ''token'' = localStorage w' ''token''
        \<and> localStorage w ''user'' = localStorage w' ''user'' \<and> estado w = estado w'"
  then show "estado (snd (cargarSesionGuardada E w)) = estado (snd (cargarSesionGuardada E w'))"
    by (intro cargar_solo_lee_token_y_user) simp_all
  show "fst (cargarSesionGuardada E w) = fst (cargarSesionGuardada E w')"
    by (simp add: cargar_resultado)
qed

theorem claves_persistidas_witness:
  \<open>''cart'' \<notin> {''token'', ''user''} \<and> ''cart'' \<notin> claves_sesion \<and> ''carrito'' \<in> claves_sesion
   \<and> localStorage (mundo_inicial almacen_dos_carritos) ''token''
       = localStorage (mundo_inicial [''token'' \<mapsto> ''abc'']) ''token''
   \<and> localStorage (mundo_inicial almacen_dos_carritos) ''user''
       = localStorage (mundo_inicial [''token'' \<mapsto> ''abc'']) ''user''
   \<and> estado (mundo_inicial almacen_dos_carritos) = estado (mundo_inicial [''token'' \<mapsto> ''abc''])
   \<and> ToString (entorno_ejemplo FetchRejects) (JStr ''xyz'') = Inr ''xyz''
   \<and> ToString (entorno_ejemplo FetchRejects) token_sin_texto = Inl TypeError
   \<and> localStorage (snd (guardarSesion (entorno_ejemplo FetchRejects) (JStr ''xyz'') usuario_ana
        (mundo_inicial almacen_dos_carritos))) ''cart'' = Some ''[1]''
   \<and> localStorage (snd (guardarSesion (entorno_ejemplo FetchRejects) (JStr ''xyz'') usuario_ana
        (mundo_inicial almacen_dos_carritos))) ''token'' = Some ''xyz''
   \<and> localStorage (snd (guardarSesion (entorno_ejemplo FetchRejects) (JStr ''xyz'') usuario_ana
        (mundo_inicial almacen_dos_carritos))) ''user''
       = Some ''{"id":1,"nombre":"Ana","email":"a@x.com"}''
   \<and> localStorage (snd (guardarSesion (entorno_ejemplo FetchRejects) token_sin_texto usuario_ana
        (mundo_inicial almacen_dos_carritos))) = almacen_dos_carritos
   \<and> localStorage (snd (cerrarSesion (entorno_ejemplo FetchRejects)
        (mundo_inicial almacen_dos_carritos))) ''cart'' = Some ''[1]''
   \<and> localStorage (snd (cerrarSesion (entorno_ejemplo FetchRejects)
        (mundo_inicial almacen_dos_carritos))) ''carrito'' = None
   \<and> localStorage (snd (cargarSesionGuardada (entorno_ejemplo FetchRejects)
        (mundo_inicial almacen_dos_carritos))) ''cart'' = Some ''[1]''
   \<and> estado (snd (cargarSesionGuardada (entorno_ejemplo FetchRejects)
        (mundo_inicial almacen_dos_carritos)))
      = estado (snd (cargarSesionGuardada (entorno_ejemplo FetchRejects)
        (mundo_inicial [''token'' \<mapsto> ''abc''])))\<close>
proof -
  have a: "ToString (entorno_ejemplo FetchRejects) (JStr ''xyz'') = Inr ''xyz''"
    by simp
  have b: "ToString (entorno_ejemplo FetchRejects) token_sin_texto = Inl TypeError"
    by (simp add: token_sin_texto_def)
  have j: \<open>JSON_stringify (entorno_ejemplo FetchRejects) usuario_ana
      = Some ''{"id":1,"nombre":"Ana","email":"a@x.com"}''\<close>
    by (simp add: entorno_ejemplo_def tabla_json_def)
  from claves_persistidas [of "''cart''" "entorno_ejemplo FetchRejects" "JStr ''xyz''"
      usuario_ana "mundo_inicial almacen_dos_carritos" "''xyz''" TypeError
      "mundo_inicial [''token'' \<mapsto> ''abc'']"]
    claves_persistidas [of "''cart''" "entorno_ejemplo FetchRejects" token_sin_texto
      usuario_ana "mundo_inicial almacen_dos_carritos" "''xyz''" TypeError
      "mundo_inicial [''token'' \<mapsto> ''abc'']"]
    a b j
  show ?thesis
    by (simp add: claves_sesion_def mundo_inicial_def almacen_dos_carritos_def)
qed

text \<open>
  Claim C6 as stated fails: the third key is \<^verbatim>\<open>carrito\<close>, not \<^verbatim>\<open>cart\<close>;
  \<^verbatim>\<open>cerrarSesion\<close> removes the former and leaves an entry under the latter in place.
\<close>

theorem cerrarSesion_no_toca_cart:
  \<open>localStorage (mundo_inicial almacen_dos_carritos) ''cart'' = Some ''[1]''
   \<and> localStorage (snd (cerrarSesion (entorno_ejemplo FetchRejects)
        (mundo_inicial almacen_dos_carritos))) ''cart'' = Some ''[1]''
   \<and> localStorage (mundo_inicial almacen_dos_carritos) ''carrito'' = Some ''[2]''
   \<and> localStorage (snd (cerrarSesion (entorno_ejemplo FetchRejects)
        (mundo_inicial almacen_dos_carritos))) ''carrito'' = None\<close>
  by (simp add: cerrarSesion_def Let_def localStorage_removeItem_def mostrarInterfaz_def
      mundo_inicial_def almacen_dos_carritos_def estado_inicial_def pagina_inicial_def)

text \<open>
  Claim C9. When the body of the response to a login or registration request is not
  valid JSON, whatever the status, the function alerts the connection message, which is
  neither of the two credential fallbacks, and leaves the in-memory state and the
  persisted store unchanged.
\<close>

theorem cuerpo_no_json:
  assumes "JSON_parse E txt = None"
  shows "(fetch E (URL_API @ ''/auth/login'')
            (JSON_stringify E (JObj [(''email'', JStr email), (''password'', JStr password)]))
          = FetchResponse st txt \<longrightarrow>
            alertas (iniciarSesion E email password w) = alertas w @ [msg_sin_conexion]
          \<and> estado (iniciarSesion E email password w) = estado w
          \<and> localStorage (iniciarSesion E email password w) = localStorage w)
    \<and> (fetch E (URL_API @ ''/auth/register'')
            (JSON_stringify E (JObj [(''nombre'', JStr nombre), (''email'', JStr email),
               (''password'', JStr password)]))
          = FetchResponse st txt \<longrightarrow>
            alertas (registrarUsuario E nombre email password w) = alertas w @ [msg_sin_conexion]
          \<and> estado (registrarUsuario E nombre email password w) = estado w
          \<and> localStorage (registrarUsuario E nombre email password w) = localStorage w)
    \<and> msg_sin_conexion \<noteq> msg_error_login \<and> msg_sin_conexion \<noteq> msg_error_registro"
  using assms
  by (simp add: iniciarSesion_def registrarUsuario_def alert_def msg_sin_conexion_def
      msg_error_login_def msg_error_registro_def)

theorem cuerpo_no_json_witness:
  "JSON_parse (entorno_ejemplo (FetchResponse 200 ''<html>'')) ''<html>'' = None
   \<and> respuesta_ok 200
   \<and> fetch (entorno_ejemplo (FetchResponse 200 ''<html>'')) (URL_API @ ''/auth/login'')
        (JSON_stringify (entorno_ejemplo (FetchResponse 200 ''<html>''))
          (JObj [(''email'', JStr ''a@x.com''), (''password'', JStr ''secreto'')]))
      = FetchResponse 200 ''<html>''
   \<and> fetch (entorno_ejemplo (FetchResponse 200 ''<html>'')) (URL_API @ ''/auth/register'')
        (JSON_stringify (entorno_ejemplo (FetchResponse 200 ''<html>''))
          (JObj [(''nombre'', JStr ''Ana''), (''email'', JStr ''a@x.com''),
                 (''password'', JStr ''secreto'')]))
      = FetchResponse 200 ''<html>''
   \<and> alertas (iniciarSesion (entorno_ejemplo (FetchResponse 200 ''<html>''))
        ''a@x.com'' ''secreto'' (mundo_inicial Map.empty)) = [msg_sin_conexion]
   \<and> estado (iniciarSesion (entorno_ejemplo (FetchResponse 200 ''<html>''))
        ''a@x.com'' ''secreto'' (mundo_inicial Map.empty)) = estado_inicial
   \<and> localStorage (iniciarSesion (entorno_ejemplo (FetchResponse 200 ''<html>''))
        ''a@x.com'' ''secreto'' (mundo_inicial Map.empty)) = Map.empty
   \<and> alertas (registrarUsuario (entorno_ejemplo (FetchResponse 200 ''<html>''))
        ''Ana'' ''a@x.com'' ''secreto'' (mundo_inicial Map.empty)) = [msg_sin_conexion]
   \<and> estado (registrarUsuario (entorno_ejemplo (FetchResponse 200 ''<html>''))
        ''Ana'' ''a@x.com'' ''secreto'' (mundo_inicial Map.empty)) = estado_inicial
   \<and> localStorage (registrarUsuario (entorno_ejemplo (FetchResponse 200 ''<html>''))
        ''Ana'' ''a@x.com'' ''secreto'' (mundo_inicial Map.empty)) = Map.empty"
proof -
  let ?E = "entorno_ejemplo (FetchResponse 200 ''<html>'')"
  have a: "JSON_parse ?E ''<html>'' = None"
    by (simp add: entorno_ejemplo_def tabla_json_def)
  have b: "fetch ?E u bd = FetchResponse 200 ''<html>''" for u bd
    by (simp add: entorno_ejemplo_def)
  from cuerpo_no_json [OF a, of "''a@x.com''" "''secreto''" 200 "mundo_inicial Map.empty" "''Ana''"] a b
  show ?thesis
    by (simp add: mundo_inicial_def respuesta_ok_def)
qed

text \<open>
  Claim C5. After every sequence of \<^verbatim>\<open>addItem\<close> and \<^verbatim>\<open>removeItem\<close> calls from the empty
  cart, and after any single call on any cart, the total is the sum of unit price times
  quantity over the lines, and no two lines share an \<^verbatim>\<open>itemId\<close>. \<^verbatim>\<open>addItem\<close> of an
  \<^verbatim>\<open>itemId\<close> already in the cart adds the quantity to the existing line and changes
  nothing else; of a new \<^verbatim>\<open>itemId\<close> it appends a line. Scenario A: adding item 1 at
  unit price 10 with quantity 2 and then with quantity 3 gives one line with quantity 5
  and total 50.
\<close>

theorem carrito_total_y_fusion:
  "total (cart_run xs carrito_vacio) = cart_sum (items (cart_run xs carrito_vacio))
   \<and> distinct (map itemId (items (cart_run xs carrito_vacio)))
   \<and> total (addItem it q c) = cart_sum (items (addItem it q c))
   \<and> total (removeItem i c) = cart_sum (items (removeItem i c))
   \<and> (distinct (map itemId (items c)) \<and> itemId it \<in> itemId ` set (items c) \<longrightarrow>
        items (addItem it q c) =
          map (\<lambda>l. if itemId l = itemId it then l\<lparr>quantity := quantity l + q\<rparr> else l) (items c))
   \<and> (itemId it \<notin> itemId ` set (items c) \<longrightarrow>
        items (addItem it q c) =
          items c @ [\<lparr>itemId = itemId it, name = name it, unitPrice = unitPrice it, quantity = q\<rparr>])
   \<and> addItem item_X 3 (addItem item_X 2 carrito_vacio) =
        \<lparr>items = [\<lparr>itemId = 1, name = ''X'', unitPrice = 10, quantity = 5\<rparr>], total = 50\<rparr>"
proof -
  have inv: "total (cart_run xs carrito_vacio) = cart_sum (items (cart_run xs carrito_vacio))
     \<and> distinct (map itemId (items (cart_run xs carrito_vacio)))"
    by (rule cart_run_inv) (simp add: carrito_vacio_def cart_sum_def)
  have a: "total (addItem it q c) = cart_sum (items (addItem it q c))"
    by (simp add: addItem_def Let_def)
  have r: "total (removeItem i c) = cart_sum (items (removeItem i c))"
    by (simp add: removeItem_def Let_def)
  have m: "distinct (map itemId (items c)) \<and> itemId it \<in> itemId ` set (items c) \<longrightarrow>
        items (addItem it q c) =
          map (\<lambda>l. if itemId l = itemId it then l\<lparr>quantity := quantity l + q\<rparr> else l) (items c)"
    by (simp add: addItem_def Let_def merge_line_presente)
  have n: "itemId it \<notin> itemId ` set (items c) \<longrightarrow>
        items (addItem it q c) =
          items c @ [\<lparr>itemId = itemId it, name = name it, unitPrice = unitPrice it, quantity = q\<rparr>]"
    by (simp add: addItem_def Let_def merge_line_ausente)
  have s: "addItem item_X 3 (addItem item_X 2 carrito_vacio) =
        \<lparr>items = [\<lparr>itemId = 1, name = ''X'', unitPrice = 10, quantity = 5\<rparr>], total = 50\<rparr>"
    by (simp add: addItem_def Let_def item_X_def carrito_vacio_def cart_sum_def)
  from inv a r m n s show ?thesis by blast
qed

theorem carrito_total_y_fusion_witness:
  "distinct (map itemId (items (addItem item_X 2 carrito_vacio)))
   \<and> itemId item_X \<in> itemId ` set (items (addItem item_X 2 carrito_vacio))
   \<and> itemId item_X \<notin> itemId ` set (items carrito_vacio)
   \<and> cart_run [AddItem item_X 2, AddItem item_X 3, RemoveItem 7] carrito_vacio =
        \<lparr>items = [\<lparr>itemId = 1, name = ''X'', unitPrice = 10, quantity = 5\<rparr>], total = 50\<rparr>
   \<and> cart_run [AddItem item_X 2, RemoveItem 1] carrito_vacio = carrito_vacio
   \<and> items (addItem item_X 3 (addItem item_X 2 carrito_vacio)) =
        [\<lparr>itemId = 1, name = ''X'', unitPrice = 10, quantity = 5\<rparr>]
   \<and> items (addItem item_X 2 carrito_vacio) =
        [\<lparr>itemId = 1, name = ''X'', unitPrice = 10, quantity = 2\<rparr>]"
  using carrito_total_y_fusion [of "[AddItem item_X 2, AddItem item_X 3, RemoveItem 7]"
      item_X 3 "addItem item_X 2 carrito_vacio" 1]
    carrito_total_y_fusion [of "[]" item_X 2 carrito_vacio 1]
  by (simp add: cart_run_def addItem_def removeItem_def Let_def item_X_def carrito_vacio_def
      cart_sum_def)

text \<open>
  Claim C7. Whenever the query of \<^verbatim>\<open>obtenerImagenes\<close> succeeds, \<^verbatim>\<open>getImagenes\<close> answers
  with status 200 and the body \<^verbatim>\<open>{success: true, message, data}\<close>, \<^verbatim>\<open>data\<close> being the
  rows of the query, and every row returned has \<^verbatim>\<open>activo = 1\<close>.
\<close>

theorem listado_imagenes_activas:
  assumes "obtenerImagenes le db = Inr imgs"
  shows "status (getImagenes le db) = 200
    \<and> body (getImagenes le db) =
        \<lparr>success = True,
         message = ''Se encontraron '' @ decimal (length imgs) @ '' imagenes'',
         data = Some imgs, error = None\<rparr>
    \<and> (\<forall>i \<in> set imgs. activo i = Some 1)"
  using assms obtenerImagenes_activas [OF assms] by (simp add: getImagenes_def)

theorem listado_imagenes_activas_witness:
  "obtenerImagenes orden_binario (Inr tabla_ejemplo) =
     Inr [imagen.truncate (fila_ejemplo 3 ''caballos'' (Some 1)),
          imagen.truncate (fila_ejemplo 1 ''playa'' (Some 1))]
   \<and> getImagenes orden_binario (Inr tabla_ejemplo) =
       \<lparr>status = 200,
        body = \<lparr>success = True, message = ''Se encontraron 2 imagenes'',
                data = Some [imagen.truncate (fila_ejemplo 3 ''caballos'' (Some 1)),
                             imagen.truncate (fila_ejemplo 1 ''playa'' (Some 1))],
                error = None\<rparr>\<rparr>
   \<and> activo (imagen.truncate (fila_ejemplo 3 ''caballos'' (Some 1))) = Some 1
   \<and> activo (imagen.truncate (fila_ejemplo 1 ''playa'' (Some 1))) = Some 1"
proof -
  have q: "obtenerImagenes orden_binario (Inr tabla_ejemplo) =
     Inr [imagen.truncate (fila_ejemplo 3 ''caballos'' (Some 1)),
          imagen.truncate (fila_ejemplo 1 ''playa'' (Some 1))]"
    by (simp add: obtenerImagenes_def tabla_ejemplo_def ordenar_por_def fila_ejemplo_def
        columna_extra_def)
  have d: "decimal (Suc (Suc 0)) = ''2''"
    by (simp add: decimal.simps digito_def)
  have g: "getImagenes orden_binario (Inr tabla_ejemplo) =
       \<lparr>status = status (getImagenes orden_binario (Inr tabla_ejemplo)),
        body = body (getImagenes orden_binario (Inr tabla_ejemplo))\<rparr>"
    by simp
  from listado_imagenes_activas [OF q] have
    "status (getImagenes orden_binario (Inr tabla_ejemplo)) = 200"
    "body (getImagenes orden_binario (Inr tabla_ejemplo)) =
       \<lparr>success = True, message = ''Se encontraron 2 imagenes'',
        data = Some [imagen.truncate (fila_ejemplo 3 ''caballos'' (Some 1)),
                     imagen.truncate (fila_ejemplo 1 ''playa'' (Some 1))],
        error = None\<rparr>"
    "activo (imagen.truncate (fila_ejemplo 3 ''caballos'' (Some 1))) = Some 1"
    "activo (imagen.truncate (fila_ejemplo 1 ''playa'' (Some 1))) = Some 1"
    by (simp_all add: d)
  with q g show ?thesis by simp
qed

text \<open>
  Claim C10. Whenever \<^verbatim>\<open>crearCliente\<close> returns an object, its fields are exactly
  \<^verbatim>\<open>insertId\<close>, \<^verbatim>\<open>id\<close>, \<^verbatim>\<open>nombre\<close> and \<^verbatim>\<open>email\<close>: there is no field
  \<^verbatim>\<open>password\<close>, \<^verbatim>\<open>nombre\<close> and \<^verbatim>\<open>email\<close> are those of the argument, and \<^verbatim>\<open>id\<close>
  equals \<^verbatim>\<open>insertId\<close>.
\<close>

theorem crearCliente_campos:
  assumes "crearCliente pool_query arg = Inr r"
  shows "campos r = [''insertId'', ''id'', ''nombre'', ''email'']
    \<and> ''password'' \<notin> set (campos r)
    \<and> get_prop r ''password'' = Inr JUndefined
    \<and> get_prop r ''nombre'' = get_prop arg ''nombre''
    \<and> get_prop r ''email'' = get_prop arg ''email''
    \<and> get_prop r ''id'' = get_prop r ''insertId''"
  using assms
  by (auto simp add: crearCliente_def split: sum.splits)

theorem crearCliente_campos_witness:
  "crearCliente pool_ejemplo
     (JObj [(''nombre'', JStr ''Ana''), (''email'', JStr ''a@x.com''),
            (''password'', JStr ''$2a$10$hash'')])
   = Inr (JObj [(''insertId'', JNum 7), (''id'', JNum 7), (''nombre'', JStr ''Ana''),
                (''email'', JStr ''a@x.com'')])
   \<and> campos (JObj [(''insertId'', JNum 7), (''id'', JNum 7), (''nombre'', JStr ''Ana''),
                (''email'', JStr ''a@x.com'')]) = [''insertId'', ''id'', ''nombre'', ''email'']"
proof -
  have c: "crearCliente pool_ejemplo
     (JObj [(''nombre'', JStr ''Ana''), (''email'', JStr ''a@x.com''),
            (''password'', JStr ''$2a$10$hash'')])
   = Inr (JObj [(''insertId'', JNum 7), (''id'', JNum 7), (''nombre'', JStr ''Ana''),
                (''email'', JStr ''a@x.com'')])"
    by (simp add: crearCliente_def pool_ejemplo_def)
  from crearCliente_campos [OF c] c show ?thesis by simp
qed

end
